theory Spec2Isabelle
  imports Main "HOL-Library.Sublist" "HOL-Library.AList"
begin

section \<open>Errors\<close>

text \<open>
  Go errors are values built by \<^verbatim>\<open>errors.Errorf\<close>, \<^verbatim>\<open>errors.Wrapf\<close> and
  \<^verbatim>\<open>errors.WithStack\<close>, or returned by a collaborator (driver, broker, mutex, user
  handler).  Each \<^verbatim>\<open>Errorf\<close> site of the modelled code has its own constructor;
  \<open>External\<close> is an error produced outside the modelled code.
\<close>

datatype error =
    External string
  | WithStack error
  | Wrapf error string
  | BadSendOption          \<comment> \<open>"SuppliedOption must be amqp.SendOptions"\<close>
  | BadConsumeOption       \<comment> \<open>"SuppliedOption must be amqp.ConsumeOptions"\<close>
  | MissingSagaUID         \<comment> \<open>the saga uid header is absent\<close>
  | SagaNotFound string    \<comment> \<open>"Saga %s not found"\<close>
  | SagaAlreadyCompleted string  \<comment> \<open>"Saga %s already completed"\<close>
  | NoFilters              \<comment> \<open>"No filters found, you have to specify at least one ..."\<close>
  | AllFiltersEmpty        \<comment> \<open>"All specified filters are empty, you have to specify ..."\<close>
  | DeserializingSaga      \<comment> \<open>"error deserializing payload into saga of type %s"\<close>
  | NotASaga               \<comment> \<open>"Error converting %s into type Saga interface"\<close>
  | DeserializingEvent     \<comment> \<open>"error deserializing payload into event of type %s"\<close>

section \<open>AMQP transport options\<close>

record ConsumeOptions =
  Exclusive :: bool
  NoLocal :: bool
  NoWait :: bool
  PrefetchCount :: int

record SendOptions =
  Mandatory :: bool
  Immediate :: bool

text \<open>
  An option receives \<^verbatim>\<open>options interface{}\<close>: a pointer to either options struct, or
  anything else.  The option writes through the pointer, so the model returns the
  updated struct.
\<close>

datatype options = ConsumeOpts ConsumeOptions | SendOpts SendOptions | OtherOpts

definition convertConsumeOptsType :: "options \<Rightarrow> error + ConsumeOptions" where
  "convertConsumeOptsType opts =
     (case opts of ConsumeOpts c \<Rightarrow> Inr c | _ \<Rightarrow> Inl BadConsumeOption)"

definition convertSendOptsType :: "options \<Rightarrow> error + SendOptions" where
  "convertSendOptsType opts =
     (case opts of SendOpts s \<Rightarrow> Inr s | _ \<Rightarrow> Inl BadSendOption)"

definition WithQosPrefetchCount :: "int \<Rightarrow> options \<Rightarrow> error + options" where
  "WithQosPrefetchCount limit opts =
     (case convertConsumeOptsType opts of
        Inl err \<Rightarrow> Inl (WithStack err)
      | Inr c \<Rightarrow> Inr (ConsumeOpts (c\<lparr>PrefetchCount := limit\<rparr>)))"

definition WithExclusive :: "options \<Rightarrow> error + options" where
  "WithExclusive opts =
     (case convertConsumeOptsType opts of
        Inl err \<Rightarrow> Inl (WithStack err)
      | Inr c \<Rightarrow> Inr (ConsumeOpts (c\<lparr>Exclusive := True\<rparr>)))"

definition WithNoLocal :: "options \<Rightarrow> error + options" where
  "WithNoLocal opts =
     (case convertConsumeOptsType opts of
        Inl err \<Rightarrow> Inl (WithStack err)
      | Inr c \<Rightarrow> Inr (ConsumeOpts (c\<lparr>NoLocal := True\<rparr>)))"

definition WithNoWait :: "options \<Rightarrow> error + options" where
  "WithNoWait opts =
     (case convertConsumeOptsType opts of
        Inl err \<Rightarrow> Inl (WithStack err)
      | Inr c \<Rightarrow> Inr (ConsumeOpts (c\<lparr>NoWait := True\<rparr>)))"

definition WithMandatory :: "options \<Rightarrow> error + options" where
  "WithMandatory opts =
     (case convertSendOptsType opts of
        Inl err \<Rightarrow> Inl (WithStack err)
      | Inr s \<Rightarrow> Inr (SendOpts (s\<lparr>Mandatory := True\<rparr>)))"

text \<open>The source of \<^verbatim>\<open>WithImmediate\<close> assigns \<^verbatim>\<open>opts.Mandatory = true\<close>.\<close>

definition WithImmediate :: "options \<Rightarrow> error + options" where
  "WithImmediate opts =
     (case convertSendOptsType opts of
        Inl err \<Rightarrow> Inl (WithStack err)
      | Inr s \<Rightarrow> Inr (SendOpts (s\<lparr>Mandatory := True\<rparr>)))"

text \<open>
  \<^verbatim>\<open>amqpTransport.Send\<close> starts from the zero \<^verbatim>\<open>&SendOptions{}\<close>, applies the options
  in order, stops at the first error, and publishes with the two flags it ends with.
\<close>

definition zeroSendOptions :: SendOptions where
  "zeroSendOptions = \<lparr>Mandatory = False, Immediate = False\<rparr>"

fun applySendOpts :: "(options \<Rightarrow> error + options) list \<Rightarrow> options \<Rightarrow> error + options" where
  "applySendOpts [] sendOptions = Inr sendOptions"
| "applySendOpts (opt # rest) sendOptions =
     (case opt sendOptions of
        Inl err \<Rightarrow> Inl (WithStack err)
      | Inr sendOptions' \<Rightarrow> applySendOpts rest sendOptions')"

text \<open>The (mandatory, immediate) pair handed to \<^verbatim>\<open>Publish\<close> by \<^verbatim>\<open>amqpTransport.Send\<close>.\<close>

definition publishFlags :: "(options \<Rightarrow> error + options) list \<Rightarrow> error + (bool \<times> bool)" where
  "publishFlags opts =
     (case applySendOpts opts (SendOpts zeroSendOptions) of
        Inl err \<Rightarrow> Inl err
      | Inr (SendOpts s) \<Rightarrow> Inr (Mandatory s, Immediate s)
      | Inr _ \<Rightarrow> Inl BadSendOption)"

section \<open>Messages, saga instances and the observable effects of a run\<close>

type_synonym GroupKind = "string \<times> string"

text \<open>\<^verbatim>\<open>systemGroup scheme.Group = "systemSaga"\<close> of the saga contracts.\<close>

definition systemGroup :: string where
  "systemGroup = ''systemSaga''"

text \<open>
  A payload (\<^verbatim>\<open>message.Object\<close>).  Of the system contracts the handler builds only
  \<^verbatim>\<open>SagaChildCompletedEvent{SagaUID}\<close>; every other payload is kept as its
  (group, kind) and its serialised fields.
\<close>

datatype Object =
    SagaChildCompletedEvent (SagaUID: string)
  | UserObject GroupKind string

fun GroupKindOf :: "Object \<Rightarrow> GroupKind" where
  "GroupKindOf (SagaChildCompletedEvent _) = (systemGroup, ''SagaChildCompletedEvent'')"
| "GroupKindOf (UserObject gk _) = gk"

text \<open>
  \<^verbatim>\<open>message.Headers\<close> is a Go map, that is a reference to a mutable table: two holders
  of the same map see each other's writes.  Header maps therefore live in a heap and
  messages hold their address.
\<close>

type_synonym Headers = "string \<rightharpoonup> string"
type_synonym ref = nat

record ReceivedMessage =
  msg_UID :: string
  msg_Payload :: Object
  msg_Headers :: ref
  msg_Origin :: string

text \<open>\<^verbatim>\<open>endpoint.DeliveryOption\<close>: the one constructor of the source is \<^verbatim>\<open>WithDelay\<close>.\<close>

datatype DeliveryOption = WithDelay int

record OutcomingMessage =
  out_Payload :: Object
  out_Headers :: ref

record Delivery =
  dl_Payload :: Object
  dl_Options :: "DeliveryOption list"

text \<open>
  Modelled from the spec: the saga status type of the saga package is not among the
  sources.  The statuses are those of the spec's data model; \<^verbatim>\<open>Completed()\<close> holds of
  the status \<open>Completed\<close> only, and a status prints as the spec names it.
\<close>

datatype status =
  StatusCreated | StatusInProgress | StatusCompensating | StatusCompleted | StatusFailed
  | StatusRecovering

fun Completed :: "status \<Rightarrow> bool" where
  "Completed StatusCompleted = True"
| "Completed _ = False"

fun String :: "status \<Rightarrow> string" where
  "String StatusCreated = ''Created''"
| "String StatusInProgress = ''InProgress''"
| "String StatusCompensating = ''Compensating''"
| "String StatusCompleted = ''Completed''"
| "String StatusFailed = ''Failed''"
| "String StatusRecovering = ''Recovering''"

text \<open>
  \<^verbatim>\<open>HistoryEvent\<close> with the fields \<^verbatim>\<open>mysqlStore\<close> reads and writes (the embedded
  \<^verbatim>\<open>Metadata\<close>'s \<open>ID\<close>, \<open>Name\<close>, \<open>Type\<close>, then \<open>Payload\<close>, \<open>CreatedAt\<close>,
  \<open>OriginSource\<close>, \<open>SagaStatus\<close>, \<open>Description\<close>) and the trace UID the handler passes
  with \<^verbatim>\<open>WithTraceUID\<close>.  'p is the payload type.
\<close>

record 'p HistoryEvent =
  ev_ID :: string
  ev_Name :: string
  ev_Type :: string
  ev_SagaStatus :: string
  ev_Payload :: 'p
  ev_Description :: string
  ev_OriginSource :: string
  ev_CreatedAt :: nat
  ev_TraceUID :: string

text \<open>
  \<^verbatim>\<open>sagaInstance\<close> with the fields \<^verbatim>\<open>instanceFromModel\<close> fills: \<open>id\<close>, \<open>status\<close>,
  \<open>parentID\<close>, \<open>historyEvents\<close>, \<open>startedAt\<close>, \<open>updatedAt\<close> (nil pointers are
  \<open>None\<close>) and \<open>saga\<close>.  'sg is the user's saga payload.
\<close>

record ('sg, 'p) sagaInstance =
  inst_id :: string
  inst_parentID :: string
  inst_status :: status
  inst_saga :: 'sg
  inst_startedAt :: "nat option"
  inst_updatedAt :: "nat option"
  inst_historyEvents :: "'p HistoryEvent list"

datatype level = DebugLevel | InfoLevel | WarnLevel | ErrorLevel

text \<open>One constructor for each log statement of the modelled code.\<close>

datatype logline =
    MutexReleaseFailed error
  | ErrorHandlingSagaEvent GroupKind string error
  | ErrorSendingDelivery string Delivery error
  | NoHandlerDefined GroupKind string
  | ErrorProcessingPkg string string error
  | ErrorAckingPackage string error
  | GracefulShutdownWaiting nat
  | StoppedCanceledCtx
  | WaitingForTasks nat
  | AllTasksFinished

text \<open>
  What a run does to the outside world, in order.  \<open>SendCall\<close> is one call of
  \<^verbatim>\<open>execCtx.Send\<close>: the message, the content its header map has at that moment, and
  the options.
\<close>

datatype 'sg effect =
    MutexLocked string
  | MutexReleaseCalled string
  | StoreGetById string
  | StoreUpdate "('sg, Object) sagaInstance"
  | HandlerCalled GroupKind
  | SendCall OutcomingMessage Headers "DeliveryOption list"
  | Logged level logline
  | Acked string
  | Disconnected

record ('st, 'sg) world =
  store :: 'st
  heap :: "ref \<Rightarrow> Headers"
  trace :: "'sg effect list"

definition emit :: "'sg effect \<Rightarrow> ('st, 'sg) world \<Rightarrow> ('st, 'sg) world" where
  "emit e w = w\<lparr>trace := trace w @ [e]\<rparr>"

section \<open>Subscriber\<close>

text \<open>\<^verbatim>\<open>time.Duration\<close> counts nanoseconds.\<close>

definition Second :: int where
  "Second = 1000000000"

definition maxTasksInProgress :: int where
  "maxTasksInProgress = 100"

definition packageProcessingMaxTime :: int where
  "packageProcessingMaxTime = Second * 60"

definition gracefulShutdownTimeout :: int where
  "gracefulShutdownTimeout = Second * 120"

definition scheduleTimeout :: int where
  "scheduleTimeout = Second * 3"

text \<open>
  A \<^verbatim>\<open>context.Context\<close> as far as the subscriber uses it: its deadline, if any, in
  nanoseconds.  \<^verbatim>\<open>context.WithTimeout(parent, d)\<close> called at time \<open>now\<close> gives the
  deadline \<open>now + d\<close>, unless the parent's is earlier.
\<close>

record Context =
  ctx_deadline :: "int option"

definition WithTimeout :: "int \<Rightarrow> Context \<Rightarrow> int \<Rightarrow> Context" where
  "WithTimeout now parent d =
     (case ctx_deadline parent of
        None \<Rightarrow> parent\<lparr>ctx_deadline := Some (now + d)\<rparr>
      | Some p \<Rightarrow> parent\<lparr>ctx_deadline := Some (min p (now + d))\<rparr>)"

text \<open>
  \<^verbatim>\<open>pkg.IncomingPkg\<close>: its UID, its origin, its body and what its \<^verbatim>\<open>Ack()\<close> returns
  when called.
\<close>

record IncomingPkg =
  pkg_UID :: string
  pkg_Origin :: string
  pkg_Body :: string
  pkg_AckResult :: "error option"

text \<open>The \<^verbatim>\<open>Processor\<close> interface: \<^verbatim>\<open>Process(ctx, inPkg) error\<close>, with its effects.\<close>

type_synonym ('st, 'sg) Processor =
  "Context \<Rightarrow> IncomingPkg \<Rightarrow> ('st, 'sg) world \<Rightarrow> error option \<times> ('st, 'sg) world"

definition Ack :: "IncomingPkg \<Rightarrow> ('st, 'sg) world \<Rightarrow> error option \<times> ('st, 'sg) world" where
  "Ack inPkg w = (pkg_AckResult inPkg, emit (Acked (pkg_UID inPkg)) w)"

definition processPackage ::
  "('st, 'sg) Processor \<Rightarrow> int \<Rightarrow> Context \<Rightarrow> IncomingPkg \<Rightarrow> ('st, 'sg) world \<Rightarrow> ('st, 'sg) world"
where
  "processPackage processor now ctx inPkg w =
     (let processorCtx = WithTimeout now ctx packageProcessingMaxTime in
      case processor processorCtx inPkg w of
        (Some err, w1) \<Rightarrow>
          emit (Logged ErrorLevel (ErrorProcessingPkg (pkg_UID inPkg) (pkg_Origin inPkg) err)) w1
      | (None, w1) \<Rightarrow>
          (case Ack inPkg w1 of
             (Some err, w2) \<Rightarrow> emit (Logged ErrorLevel (ErrorAckingPackage (pkg_UID inPkg) err)) w2
           | (None, w2) \<Rightarrow> w2))"

text \<open>
  \<^verbatim>\<open>subscriber.Stop\<close>.  The workers finish on their own, so every call of
  \<^verbatim>\<open>busyWorkers()\<close> may return another number: \<open>busy k\<close> is what the \<open>k\<close>-th call
  returns.  \<open>sel i\<close> is the case the \<open>i\<close>-th \<^verbatim>\<open>select\<close> takes: \<^verbatim>\<open>ctx.Done()\<close> or the
  one-second ticker.  The loop need not end (workers that never finish under a context
  that is never done), so it runs on fuel: \<open>None\<close> is a loop still waiting when the
  fuel is spent.
\<close>

datatype select_case = CtxDone | TickerFired

definition waitingTickerPeriod :: int where
  "waitingTickerPeriod = Second"

fun waitForWorkers ::
  "nat \<Rightarrow> (nat \<Rightarrow> nat) \<Rightarrow> (nat \<Rightarrow> select_case) \<Rightarrow> nat \<Rightarrow> nat \<Rightarrow> ('st, 'sg) world
     \<Rightarrow> (bool \<times> ('st, 'sg) world) option"
where
  "waitForWorkers 0 busy sel k i w = None"
| "waitForWorkers (Suc fuel) busy sel k i w =
     (if busy k > 0 then
        (case sel i of
           CtxDone \<Rightarrow> Some (False, emit (Logged WarnLevel StoppedCanceledCtx) w)
         | TickerFired \<Rightarrow>
             waitForWorkers fuel busy sel (k + 2) (Suc i)
               (emit (Logged InfoLevel (WaitingForTasks (busy (k + 1)))) w))
      else Some (True, w))"

text \<open>
  The boolean of \<open>waitForWorkers\<close> tells whether the loop was left by its condition
  (\<open>True\<close>) or by the \<^verbatim>\<open>return nil\<close> of the \<^verbatim>\<open>ctx.Done()\<close> case (\<open>False\<close>).
  \<open>disconnect\<close> is what \<^verbatim>\<open>Transport.Disconnect\<close> returns.
\<close>

definition Stop ::
  "nat \<Rightarrow> (nat \<Rightarrow> nat) \<Rightarrow> (nat \<Rightarrow> select_case) \<Rightarrow> error option \<Rightarrow> ('st, 'sg) world
     \<Rightarrow> (error option \<times> ('st, 'sg) world) option"
where
  "Stop fuel busy sel disconnect w =
     (let (k, w0) = (if busy 0 > 0
                     then (2, emit (Logged InfoLevel (GracefulShutdownWaiting (busy 1))) w)
                     else (1, w)) in
      case waitForWorkers fuel busy sel k 0 w0 of
        None \<Rightarrow> None
      | Some (False, w1) \<Rightarrow> Some (None, w1)
      | Some (True, w1) \<Rightarrow>
          Some (disconnect, emit Disconnected (emit (Logged InfoLevel AllTasksFinished) w1)))"

section \<open>Saga events handler\<close>

text \<open>
  Modelled from the spec: the \<^verbatim>\<open>SagaUIDService\<close> is not among the sources.  The spec
  names the header key \<open>saga_uid\<close>; \<^verbatim>\<open>ExtractSagaUID\<close> reads it and fails when it is
  missing.  \<^verbatim>\<open>AddSagaId(headers, uid)\<close> returns nothing, so it can only work by writing
  the entry into the map it is given.
\<close>

definition sagaUIDKey :: string where
  "sagaUIDKey = ''saga_uid''"

definition ExtractSagaUID :: "Headers \<Rightarrow> error + string" where
  "ExtractSagaUID headers =
     (case headers sagaUIDKey of None \<Rightarrow> Inl MissingSagaUID | Some sagaUID \<Rightarrow> Inr sagaUID)"

definition AddSagaId :: "ref \<Rightarrow> string \<Rightarrow> ('st, 'sg) world \<Rightarrow> ('st, 'sg) world" where
  "AddSagaId headers sagaUID w =
     w\<lparr>heap := (heap w)(headers := (heap w headers)(sagaUIDKey \<mapsto> sagaUID))\<rparr>"

text \<open>
  Modelled from the spec: \<^verbatim>\<open>message.NewOutcomingMessage\<close> and \<^verbatim>\<open>message.WithHeaders\<close>
  are not among the sources.  The spec asks for a copy of the headers and records, as an
  open question, that the source reuses the headers of the incoming envelope when it
  emits outbound messages.  Here the outgoing message holds the map it is given.  The
  theorems below are about the payload of a sent message and the content its headers
  have at the moment of \<^verbatim>\<open>Send\<close>; a constructor that copies the map gives the same
  content, under another address.
\<close>

definition NewOutcomingMessage :: "Object \<Rightarrow> ref \<Rightarrow> OutcomingMessage" where
  "NewOutcomingMessage payload headers = \<lparr>out_Payload = payload, out_Headers = headers\<rparr>"

text \<open>
  The saga context a handler works on: the instance and the deliveries it has
  dispatched.  A handler (\<^verbatim>\<open>saga.EventHandlers()[gk]\<close>) may change both and may fail.
\<close>

record 'sg SagaCtx =
  sctx_SagaInstance :: "('sg, Object) sagaInstance"
  sctx_Deliveries :: "Delivery list"

definition NewSagaCtx :: "('sg, Object) sagaInstance \<Rightarrow> 'sg SagaCtx" where
  "NewSagaCtx sagaInstance = \<lparr>sctx_SagaInstance = sagaInstance, sctx_Deliveries = []\<rparr>"

type_synonym 'sg Executor = "'sg SagaCtx \<Rightarrow> error option \<times> 'sg SagaCtx"

text \<open>
  The collaborators of \<^verbatim>\<open>SagaEventsHandler.Handle\<close>, all of them interfaces in the
  source: the \<^verbatim>\<open>Store\<close> (over a store state 'st), the mutex, the user's saga
  (\<^verbatim>\<open>Init\<close>, \<^verbatim>\<open>EventHandlers\<close>), \<^verbatim>\<open>execCtx.Send\<close>, the clock, and the generator of the
  fields of a new history event that the spec leaves open (ID, name, type, description,
  creation time), given the payload and the number of events the instance holds.
\<close>

record ('st, 'sg) deps =
  sagaStore_GetById :: "'st \<Rightarrow> string \<Rightarrow> error + ('sg, Object) sagaInstance option"
  sagaStore_Update :: "'st \<Rightarrow> ('sg, Object) sagaInstance \<Rightarrow> error option \<times> 'st"
  mutex_Lock :: "string \<Rightarrow> error option"
  mutex_Release :: "string \<Rightarrow> error option"
  saga_Init :: "'sg \<Rightarrow> 'sg"
  saga_EventHandlers :: "'sg \<Rightarrow> GroupKind \<rightharpoonup> 'sg Executor"
  execCtx_Send :: "OutcomingMessage \<Rightarrow> Headers \<Rightarrow> DeliveryOption list \<Rightarrow> error option"
  clock :: nat
  mintHistoryEvent :: "Object \<Rightarrow> nat \<Rightarrow> Object HistoryEvent"

text \<open>
  Modelled from the spec: \<^verbatim>\<open>Progress()\<close> and \<^verbatim>\<open>AddHistoryEvent\<close> of the saga instance
  are not among the sources.  The handler calls \<^verbatim>\<open>Progress()\<close> as a statement, on
  whatever status was loaded (only \<open>Completed\<close> is turned away before), and gets no
  result that could report a refused transition; the spec's handler contract names the
  step as the transition to \<open>InProgress\<close>.  So \<^verbatim>\<open>Progress()\<close> moves the status to
  \<open>InProgress\<close> and, as every mutation, advances \<open>UpdatedAt\<close>.  (The spec's state
  machine lists the edge from \<open>InProgress\<close> and \<open>Recovering\<close> only; what the absent
  code does from another status is not known.)  \<^verbatim>\<open>AddHistoryEvent\<close> appends an event
  that carries the payload, the origin, the trace UID and the status of that moment.
\<close>

definition Progress :: "nat \<Rightarrow> ('sg, 'p) sagaInstance \<Rightarrow> ('sg, 'p) sagaInstance" where
  "Progress now sagaInstance =
     sagaInstance\<lparr>inst_status := StatusInProgress, inst_updatedAt := Some now\<rparr>"

definition AddHistoryEvent ::
  "('st, 'sg) deps \<Rightarrow> Object \<Rightarrow> string \<Rightarrow> string \<Rightarrow> ('sg, Object) sagaInstance
     \<Rightarrow> ('sg, Object) sagaInstance"
where
  "AddHistoryEvent d payload origin traceUID sagaInstance =
     sagaInstance\<lparr>inst_historyEvents :=
       inst_historyEvents sagaInstance @
         [(mintHistoryEvent d payload (length (inst_historyEvents sagaInstance)))
            \<lparr>ev_SagaStatus := String (inst_status sagaInstance),
             ev_Payload := payload,
             ev_OriginSource := origin,
             ev_TraceUID := traceUID\<rparr>]\<rparr>"

definition storeGetById ::
  "('st, 'sg) deps \<Rightarrow> string \<Rightarrow> ('st, 'sg) world
     \<Rightarrow> (error + ('sg, Object) sagaInstance option) \<times> ('st, 'sg) world"
where
  "storeGetById d sagaId w = (sagaStore_GetById d (store w) sagaId, emit (StoreGetById sagaId) w)"

definition storeUpdate ::
  "('st, 'sg) deps \<Rightarrow> ('sg, Object) sagaInstance \<Rightarrow> ('st, 'sg) world
     \<Rightarrow> error option \<times> ('st, 'sg) world"
where
  "storeUpdate d sagaInstance w =
     (fst (sagaStore_Update d (store w) sagaInstance),
      emit (StoreUpdate sagaInstance) (w\<lparr>store := snd (sagaStore_Update d (store w) sagaInstance)\<rparr>))"

definition Send ::
  "('st, 'sg) deps \<Rightarrow> OutcomingMessage \<Rightarrow> DeliveryOption list \<Rightarrow> ('st, 'sg) world
     \<Rightarrow> error option \<times> ('st, 'sg) world"
where
  "Send d outcomingMsg opts w =
     (execCtx_Send d outcomingMsg (heap w (out_Headers outcomingMsg)) opts,
      emit (SendCall outcomingMsg (heap w (out_Headers outcomingMsg)) opts) w)"

text \<open>The loop over \<^verbatim>\<open>sagaCtx.Deliveries()\<close>: stamp, build the message, send.\<close>

fun sendDeliveries ::
  "('st, 'sg) deps \<Rightarrow> ReceivedMessage \<Rightarrow> ('sg, Object) sagaInstance \<Rightarrow> Delivery list
     \<Rightarrow> ('st, 'sg) world \<Rightarrow> error option \<times> ('st, 'sg) world"
where
  "sendDeliveries d msg sagaInstance [] w = (None, w)"
| "sendDeliveries d msg sagaInstance (delivery # rest) w =
     (let w1 = AddSagaId (msg_Headers msg) (inst_id sagaInstance) w;
          outcomingMsg = NewOutcomingMessage (dl_Payload delivery) (msg_Headers msg)
      in case Send d outcomingMsg (dl_Options delivery) w1 of
           (Some err, w2) \<Rightarrow>
             (Some (Wrapf err ''sending delivery for saga''),
              emit (Logged ErrorLevel (ErrorSendingDelivery (inst_id sagaInstance) delivery err)) w2)
         | (None, w2) \<Rightarrow> sendDeliveries d msg sagaInstance rest w2)"

text \<open>
  The received event is written into the history, then every delivery
  (\<^verbatim>\<open>AddHistoryEvent(ev.Payload)\<close>, without origin and trace UID).
\<close>

definition recordHistory ::
  "('st, 'sg) deps \<Rightarrow> ReceivedMessage \<Rightarrow> 'sg SagaCtx \<Rightarrow> ('sg, Object) sagaInstance"
where
  "recordHistory d msg sagaCtx =
     foldl (\<lambda>sagaInstance ev. AddHistoryEvent d (dl_Payload ev) [] [] sagaInstance)
       (AddHistoryEvent d (msg_Payload msg) (msg_Origin msg) (msg_UID msg)
          (sctx_SagaInstance sagaCtx))
       (sctx_Deliveries sagaCtx)"

text \<open>The end of \<^verbatim>\<open>Handle\<close>: history, \<^verbatim>\<open>Store.Update\<close>, the event for the parent.\<close>

definition persistAndNotify ::
  "('st, 'sg) deps \<Rightarrow> ReceivedMessage \<Rightarrow> 'sg SagaCtx \<Rightarrow> ('st, 'sg) world
     \<Rightarrow> error option \<times> ('st, 'sg) world"
where
  "persistAndNotify d msg sagaCtx w =
     (let sagaInstance = recordHistory d msg sagaCtx in
      case storeUpdate d sagaInstance w of
        (Some err, w1) \<Rightarrow> (Some (Wrapf err ''error saving saga state to db''), w1)
      | (None, w1) \<Rightarrow>
          if Completed (inst_status sagaInstance) \<and> inst_parentID sagaInstance \<noteq> [] then
            Send d
              (NewOutcomingMessage (SagaChildCompletedEvent (inst_id sagaInstance))
                 (msg_Headers msg))
              []
              (AddSagaId (msg_Headers msg) (inst_parentID sagaInstance) w1)
          else (None, w1))"

text \<open>
  \<^verbatim>\<open>Handle\<close> from \<^verbatim>\<open>sagaStore.GetById\<close> on, that is under the mutex.
  \<^verbatim>\<open>saga.SetSchema\<close> only attaches the type registry.
\<close>

definition handleLocked ::
  "('st, 'sg) deps \<Rightarrow> ReceivedMessage \<Rightarrow> string \<Rightarrow> ('st, 'sg) world
     \<Rightarrow> error option \<times> ('st, 'sg) world"
where
  "handleLocked d msg sagaId w =
     (case storeGetById d sagaId w of
        (Inl err, w1) \<Rightarrow> (Some (Wrapf err ''Error retrieving saga from store''), w1)
      | (Inr None, w1) \<Rightarrow> (Some (SagaNotFound sagaId), w1)
      | (Inr (Some loaded), w1) \<Rightarrow>
          if Completed (inst_status loaded) then (Some (SagaAlreadyCompleted sagaId), w1)
          else
            (let saga = saga_Init d (inst_saga loaded);
                 sagaInstance = Progress (clock d) (loaded\<lparr>inst_saga := saga\<rparr>);
                 sagaCtx = NewSagaCtx sagaInstance;
                 msgGK = GroupKindOf (msg_Payload msg)
             in case saga_EventHandlers d saga msgGK of
                  Some handler \<Rightarrow>
                    (case handler sagaCtx of
                       (Some err, _) \<Rightarrow>
                         (Some (Wrapf err ''handling event''),
                          emit (Logged ErrorLevel (ErrorHandlingSagaEvent msgGK (msg_UID msg) err))
                            (emit (HandlerCalled msgGK) w1))
                     | (None, sagaCtx') \<Rightarrow>
                         (case sendDeliveries d msg (sctx_SagaInstance sagaCtx')
                                 (sctx_Deliveries sagaCtx') (emit (HandlerCalled msgGK) w1) of
                            (Some err, w2) \<Rightarrow> (Some err, w2)
                          | (None, w2) \<Rightarrow> persistAndNotify d msg sagaCtx' w2))
                | None \<Rightarrow>
                    persistAndNotify d msg sagaCtx
                      (emit (Logged WarnLevel (NoHandlerDefined msgGK (msg_UID msg))) w1)))"

text \<open>The deferred \<^verbatim>\<open>mutex.Release\<close>: a failure is logged and goes no further.\<close>

definition releaseMutex :: "('st, 'sg) deps \<Rightarrow> string \<Rightarrow> ('st, 'sg) world \<Rightarrow> ('st, 'sg) world" where
  "releaseMutex d sagaId w =
     (case mutex_Release d sagaId of
        Some err \<Rightarrow> emit (Logged ErrorLevel (MutexReleaseFailed err)) (emit (MutexReleaseCalled sagaId) w)
      | None \<Rightarrow> emit (MutexReleaseCalled sagaId) w)"

definition Handle ::
  "('st, 'sg) deps \<Rightarrow> ReceivedMessage \<Rightarrow> ('st, 'sg) world \<Rightarrow> error option \<times> ('st, 'sg) world"
where
  "Handle d msg w =
     (case ExtractSagaUID (heap w (msg_Headers msg)) of
        Inl err \<Rightarrow> (Some (Wrapf err ''extracting saga id from message''), w)
      | Inr sagaId \<Rightarrow>
          (case mutex_Lock d sagaId of
             Some err \<Rightarrow> (Some (WithStack err), w)
           | None \<Rightarrow>
               (fst (handleLocked d msg sagaId (emit (MutexLocked sagaId) w)),
                releaseMutex d sagaId (snd (handleLocked d msg sagaId (emit (MutexLocked sagaId) w))))))"

text \<open>
  Modelled from the spec: the \<^verbatim>\<open>Processor\<close> implementation is not among the sources.
  It decodes the package into a message and dispatches it to the handler.  A decoding
  error is returned to \<^verbatim>\<open>processPackage\<close>, and so is the success of the handler.  What
  the Processor returns when the handler fails is not settled: the spec leaves handler
  errors unacked in one place and acks some of them in its table of errors.  That answer
  is the parameter \<open>policy\<close>.
\<close>

definition Process ::
  "(IncomingPkg \<Rightarrow> error + ReceivedMessage)
     \<Rightarrow> (error \<Rightarrow> error option)
     \<Rightarrow> (ReceivedMessage \<Rightarrow> ('st, 'sg) world \<Rightarrow> error option \<times> ('st, 'sg) world)
     \<Rightarrow> ('st, 'sg) Processor"
where
  "Process decode policy handler ctx inPkg w =
     (case decode inPkg of
        Inl err \<Rightarrow> (Some err, w)
      | Inr msg \<Rightarrow>
          (case handler msg w of
             (None, w1) \<Rightarrow> (None, w1)
           | (Some err, w1) \<Rightarrow> (policy err, w1)))"

section \<open>Saga store on MySQL\<close>

text \<open>
  The two tables of \<^verbatim>\<open>initMysqlTables\<close>.  \<open>saga.id\<close> and \<open>saga_history.id\<close> are primary
  keys; \<open>saga_history.saga_id\<close> references \<open>saga.id\<close>.  A table is the list of its rows,
  an \<^verbatim>\<open>INSERT\<close> adds a row at the end.
\<close>

record saga_row =
  s_id :: string
  s_parent_id :: string
  s_name :: string
  s_payload :: string
  s_status :: string
  s_started_at :: "nat option"
  s_updated_at :: "nat option"

record history_row =
  h_id :: string
  h_saga_id :: string
  h_name :: string
  h_type :: string
  h_status :: string
  h_payload :: string
  h_description :: string
  h_origin_source :: string
  h_created_at :: nat

record database =
  saga_tbl :: "saga_row list"
  history_tbl :: "history_row list"

text \<open>
  What the store gets from outside: the JSON encoder, the type registry
  (\<^verbatim>\<open>LoadType\<close> gives a fresh object of a registered type, or an error), the JSON decoder
  (\<^verbatim>\<open>Unmarshal\<close> fills the object from the stored payload), the type assertion
  \<^verbatim>\<open>saga.(Saga)\<close>, and, for every call into the SQL driver, the error the driver may
  answer with for reasons of its own (connection, deadlock, cancelled context).  \<open>scanErr n\<close> is the
  answer of \<^verbatim>\<open>rows.Scan\<close> on the \<open>n\<close>-th row, \<open>insertErr id\<close> that of the \<^verbatim>\<open>INSERT\<close> of
  the history event \<open>id\<close>.
\<close>

record ('sg, 'p) driver =
  marshalSaga :: "'sg \<Rightarrow> error + string"
  marshalPayload :: "'p \<Rightarrow> error + string"
  sagaName :: "'sg \<Rightarrow> string"
  StatusFromStr :: "string \<Rightarrow> error + status"
  LoadType :: "string \<Rightarrow> error + 'p"
  Unmarshal :: "string \<Rightarrow> 'p \<Rightarrow> error + 'p"
  asSaga :: "'p \<Rightarrow> 'sg option"
  ParseMessageType :: "string \<Rightarrow> error + string"
  beginErr :: "error option"
  updateErr :: "error option"
  selectErr :: "error option"
  scanErr :: "nat \<Rightarrow> error option"
  insertErr :: "string \<Rightarrow> error option"
  commitErr :: "error option"
  rollbackErr :: "error option"
  queryErr :: "error option"
  rowsErr :: "error option"

text \<open>How the transaction of a call ended.\<close>

datatype tx_end = NotBegun | Committed | RolledBack | RollbackFailed | CommitFailed

text \<open>
  Every error branch inside the transaction:
  \<^verbatim>\<open>if rErr := tx.Rollback(); rErr != nil { return Wrapf(rErr, ...) }; return WithStack(err)\<close>.
  The statements of a transaction that is not committed leave the stored tables as they
  were, also when the rollback itself reports an error.
\<close>

definition rollback ::
  "('sg, 'p) driver \<Rightarrow> error \<Rightarrow> database \<Rightarrow> error option \<times> database \<times> tx_end" where
  "rollback drv err db =
     (case rollbackErr drv of
        Some rErr \<Rightarrow> (Some (Wrapf rErr ''error rollback when''), db, RollbackFailed)
      | None \<Rightarrow> (Some (WithStack err), db, RolledBack))"

text \<open>\<^verbatim>\<open>UPDATE saga SET parent_id=?, name=?, payload=?, ... WHERE id=?\<close>\<close>

definition execUpdateSaga :: "saga_row \<Rightarrow> database \<Rightarrow> database" where
  "execUpdateSaga new db =
     db\<lparr>saga_tbl := map (\<lambda>row. if s_id row = s_id new then new else row) (saga_tbl db)\<rparr>"

text \<open>\<^verbatim>\<open>SELECT id FROM saga_history WHERE saga_id=?\<close>\<close>

definition selectHistoryIds :: "string \<Rightarrow> database \<Rightarrow> string list" where
  "selectHistoryIds sagaId db = map h_id (filter (\<lambda>row. h_saga_id row = sagaId) (history_tbl db))"

text \<open>
  The \<^verbatim>\<open>rows.Next()\<close> loop filling \<^verbatim>\<open>ids := make(map[string]string)\<close>; the keys of the
  map are kept as a list without repetition, so that \<^verbatim>\<open>len(ids)\<close> is its length.
\<close>

fun scanIds :: "(nat \<Rightarrow> error option) \<Rightarrow> nat \<Rightarrow> string list \<Rightarrow> string list \<Rightarrow> error + string list" where
  "scanIds scan n [] ids = Inr ids"
| "scanIds scan n (row # rows) ids =
     (case scan n of
        Some err \<Rightarrow> Inl err
      | None \<Rightarrow> scanIds scan (Suc n) rows (List.insert row ids))"

definition historyRow :: "string \<Rightarrow> 'p HistoryEvent \<Rightarrow> string \<Rightarrow> history_row" where
  "historyRow sagaId m payload =
     \<lparr>h_id = ev_ID m, h_saga_id = sagaId, h_name = ev_Name m, h_type = ev_Type m,
      h_status = ev_SagaStatus m, h_payload = payload, h_description = ev_Description m,
      h_origin_source = ev_OriginSource m, h_created_at = ev_CreatedAt m\<rparr>"

text \<open>
  \<^verbatim>\<open>INSERT INTO saga_history VALUES (...)\<close>: refused by the driver for its own reasons, or
  by the primary key, or by the foreign key.
\<close>

definition execInsertHistory ::
  "('sg, 'p) driver \<Rightarrow> history_row \<Rightarrow> database \<Rightarrow> error + database" where
  "execInsertHistory drv row db =
     (case insertErr drv (h_id row) of
        Some err \<Rightarrow> Inl err
      | None \<Rightarrow>
          if h_id row \<in> set (map h_id (history_tbl db))
          then Inl (External ''Duplicate entry for key PRIMARY'')
          else if h_saga_id row \<notin> set (map s_id (saga_tbl db))
          then Inl (External ''a foreign key constraint fails'')
          else Inr (db\<lparr>history_tbl := history_tbl db @ [row]\<rparr>))"

text \<open>The loop over \<^verbatim>\<open>sagaInstance.HistoryEvents()\<close>, skipping the IDs found in \<open>ids\<close>.\<close>

fun insertNewEvents ::
  "('sg, 'p) driver \<Rightarrow> string \<Rightarrow> string list \<Rightarrow> 'p HistoryEvent list \<Rightarrow> database
     \<Rightarrow> error + database"
where
  "insertNewEvents drv sagaId ids [] tx = Inr tx"
| "insertNewEvents drv sagaId ids (m # rest) tx =
     (if ev_ID m \<in> set ids then insertNewEvents drv sagaId ids rest tx
      else
        (case marshalPayload drv (ev_Payload m) of
           Inl err \<Rightarrow> Inl err
         | Inr payload \<Rightarrow>
             (case execInsertHistory drv (historyRow sagaId m payload) tx of
                Inl err \<Rightarrow> Inl err
              | Inr tx' \<Rightarrow> insertNewEvents drv sagaId ids rest tx')))"

definition sagaRow :: "('sg, 'p) driver \<Rightarrow> ('sg, 'p) sagaInstance \<Rightarrow> string \<Rightarrow> saga_row" where
  "sagaRow drv sagaInstance payload =
     \<lparr>s_id = inst_id sagaInstance, s_parent_id = inst_parentID sagaInstance,
      s_name = sagaName drv (inst_saga sagaInstance), s_payload = payload,
      s_status = String (inst_status sagaInstance),
      s_started_at = inst_startedAt sagaInstance, s_updated_at = inst_updatedAt sagaInstance\<rparr>"

text \<open>
  \<^verbatim>\<open>mysqlStore.Update\<close>: the result is the error, the stored tables after the call, and
  how the transaction ended.
\<close>

definition mysqlStore_Update ::
  "('sg, 'p) driver \<Rightarrow> database \<Rightarrow> ('sg, 'p) sagaInstance \<Rightarrow> error option \<times> database \<times> tx_end"
where
  "mysqlStore_Update drv db sagaInstance =
     (case marshalSaga drv (inst_saga sagaInstance) of
        Inl err \<Rightarrow> (Some (WithStack err), db, NotBegun)
      | Inr payload \<Rightarrow>
     (case beginErr drv of
        Some err \<Rightarrow> (Some (WithStack err), db, NotBegun)
      | None \<Rightarrow>
     (case updateErr drv of
        Some err \<Rightarrow> rollback drv err db
      | None \<Rightarrow>
     (case selectErr drv of
        Some err \<Rightarrow> rollback drv err db
      | None \<Rightarrow>
     (case scanIds (scanErr drv) 0
             (selectHistoryIds (inst_id sagaInstance)
                (execUpdateSaga (sagaRow drv sagaInstance payload) db)) [] of
        Inl err \<Rightarrow> rollback drv err db
      | Inr ids \<Rightarrow>
     (case (if length ids < length (inst_historyEvents sagaInstance)
            then insertNewEvents drv (inst_id sagaInstance) ids (inst_historyEvents sagaInstance)
                   (execUpdateSaga (sagaRow drv sagaInstance payload) db)
            else Inr (execUpdateSaga (sagaRow drv sagaInstance payload) db)) of
        Inl err \<Rightarrow> rollback drv err db
      | Inr tx \<Rightarrow>
     (case commitErr drv of
        Some err \<Rightarrow> (Some (WithStack err), db, CommitFailed)
      | None \<Rightarrow> (None, tx, Committed))))))))"

text \<open>
  Modelled from the spec: the filter constructors and \<^verbatim>\<open>filterOptions\<close> are not among the
  sources.  The spec recognises three filters, by saga UID, by status and by saga type;
  \<^verbatim>\<open>GetByFilter\<close> reads the fields \<open>sagaId\<close>, \<open>status\<close> and \<open>sagaType\<close> they set.
\<close>

record filterOptions =
  fo_sagaId :: string
  fo_status :: string
  fo_sagaType :: string

datatype FilterOption = WithSagaId string | WithStatus string | WithSagaType string

fun filterValue :: "FilterOption \<Rightarrow> string" where
  "filterValue (WithSagaId v) = v"
| "filterValue (WithStatus v) = v"
| "filterValue (WithSagaType v) = v"

fun applyFilter :: "FilterOption \<Rightarrow> filterOptions \<Rightarrow> filterOptions" where
  "applyFilter (WithSagaId v) opts = opts\<lparr>fo_sagaId := v\<rparr>"
| "applyFilter (WithStatus v) opts = opts\<lparr>fo_status := v\<rparr>"
| "applyFilter (WithSagaType v) opts = opts\<lparr>fo_sagaType := v\<rparr>"

text \<open>The conditions of the \<^verbatim>\<open>WHERE\<close> clause, joined by \<^verbatim>\<open>AND\<close>, with their arguments.\<close>

datatype condition = IdEq string | StatusEq string | NameEq string

definition buildConditions :: "filterOptions \<Rightarrow> condition list" where
  "buildConditions opts =
     (if fo_sagaId opts \<noteq> [] then [IdEq (fo_sagaId opts)] else [])
     @ (if fo_status opts \<noteq> [] then [StatusEq (fo_status opts)] else [])
     @ (if fo_sagaType opts \<noteq> [] then [NameEq (fo_sagaType opts)] else [])"

fun holds :: "condition \<Rightarrow> saga_row \<Rightarrow> bool" where
  "holds (IdEq v) row = (s_id row = v)"
| "holds (StatusEq v) row = (s_status row = v)"
| "holds (NameEq v) row = (s_name row = v)"

text \<open>
  \<^verbatim>\<open>SELECT ... FROM saga s LEFT JOIN saga_history sh ON s.id = sh.saga_id WHERE ...\<close>:
  a saga without history gives one row whose history columns are NULL.
\<close>

definition leftJoin :: "condition list \<Rightarrow> database \<Rightarrow> (saga_row \<times> history_row option) list" where
  "leftJoin conditions db =
     concat (map (\<lambda>s. case filter (\<lambda>h. h_saga_id h = s_id s) (history_tbl db) of
                         [] \<Rightarrow> [(s, None)]
                       | hs \<Rightarrow> map (\<lambda>h. (s, Some h)) hs)
               (filter (\<lambda>s. list_all (\<lambda>c. holds c s) conditions) (saga_tbl db)))"

definition instanceFromModel ::
  "('sg, 'p) driver \<Rightarrow> saga_row \<Rightarrow> error + ('sg, 'p) sagaInstance" where
  "instanceFromModel drv sagaData =
     (case StatusFromStr drv (s_status sagaData) of
        Inl err \<Rightarrow> Inl (Wrapf err ''parsing status'')
      | Inr st \<Rightarrow>
     (case LoadType drv (s_name sagaData) of
        Inl err \<Rightarrow> Inl (Wrapf err ''loading type for saga'')
      | Inr obj \<Rightarrow>
     (case Unmarshal drv (s_payload sagaData) obj of
        Inl err \<Rightarrow> Inl DeserializingSaga
      | Inr decoded \<Rightarrow>
     (case asSaga drv decoded of
        None \<Rightarrow> Inl NotASaga
      | Some saga \<Rightarrow>
          Inr \<lparr>inst_id = s_id sagaData, inst_parentID = s_parent_id sagaData,
               inst_status = st, inst_saga = saga,
               inst_startedAt = s_started_at sagaData,
               inst_updatedAt = s_updated_at sagaData, inst_historyEvents = []\<rparr>))))"

text \<open>\<^verbatim>\<open>eventFromModel\<close>; the trace UID is not stored, headers are ignored.\<close>

definition eventFromModel :: "('sg, 'p) driver \<Rightarrow> history_row \<Rightarrow> error + 'p HistoryEvent" where
  "eventFromModel drv ev =
     (case LoadType drv (h_name ev) of
        Inl err \<Rightarrow> Inl (Wrapf err ''loading type for event'')
      | Inr obj \<Rightarrow>
     (case Unmarshal drv (h_payload ev) obj of
        Inl err \<Rightarrow> Inl DeserializingEvent
      | Inr eventPayload \<Rightarrow>
     (case ParseMessageType drv (h_type ev) of
        Inl err \<Rightarrow> Inl (Wrapf err ''parsing message type'')
      | Inr messageType \<Rightarrow>
          Inr \<lparr>ev_ID = h_id ev, ev_Name = h_name ev, ev_Type = messageType,
               ev_SagaStatus = h_status ev, ev_Payload = eventPayload,
               ev_Description = h_description ev, ev_OriginSource = h_origin_source ev,
               ev_CreatedAt = h_created_at ev, ev_TraceUID = []\<rparr>)))"

text \<open>
  The loop over the rows of the join, collecting \<^verbatim>\<open>sagas := make(map[string]*sagaInstance)\<close>.
  The map is kept as an association list in the order of first insertion; Go's own
  iteration order over the map is unspecified.
\<close>

fun collectRows ::
  "('sg, 'p) driver \<Rightarrow> nat \<Rightarrow> (saga_row \<times> history_row option) list
     \<Rightarrow> (string \<times> ('sg, 'p) sagaInstance) list \<Rightarrow> error + (string \<times> ('sg, 'p) sagaInstance) list"
where
  "collectRows drv n [] sagas = Inr sagas"
| "collectRows drv n ((sagaData, ev) # rows) sagas =
     (case scanErr drv n of
        Some err \<Rightarrow> Inl (WithStack err)
      | None \<Rightarrow>
     (case (case map_of sagas (s_id sagaData) of
              Some found \<Rightarrow> Inr (found, sagas)
            | None \<Rightarrow>
                (case instanceFromModel drv sagaData of
                   Inl err \<Rightarrow> Inl (WithStack err)
                 | Inr created \<Rightarrow> Inr (created, sagas @ [(s_id sagaData, created)]))) of
        Inl err \<Rightarrow> Inl err
      | Inr (sagaInstance, sagas') \<Rightarrow>
          (case ev of
             None \<Rightarrow> collectRows drv (Suc n) rows sagas'
           | Some hrow \<Rightarrow>
               if h_id hrow = [] then collectRows drv (Suc n) rows sagas'
               else
                 (case eventFromModel drv hrow of
                    Inl err \<Rightarrow> Inl (WithStack err)
                  | Inr historyEvent \<Rightarrow>
                      collectRows drv (Suc n) rows
                        (AList.update (s_id sagaData)
                           (sagaInstance\<lparr>inst_historyEvents :=
                              inst_historyEvents sagaInstance @ [historyEvent]\<rparr>) sagas')))))"

text \<open>
  \<^verbatim>\<open>mysqlStore.GetByFilter\<close>: the result and the queries sent to the database.  After the
  loop the source returns \<^verbatim>\<open>errors.WithStack(err)\<close> when \<^verbatim>\<open>rows.Err()\<close> is set, with an
  \<^verbatim>\<open>err\<close> that is nil at that point: a nil slice and a nil error.
\<close>

definition GetByFilter ::
  "('sg, 'p) driver \<Rightarrow> database \<Rightarrow> FilterOption list
     \<Rightarrow> (error + ('sg, 'p) sagaInstance list) \<times> condition list list"
where
  "GetByFilter drv db filters =
     (if length filters = 0 then (Inl NoFilters, [])
      else
        (let opts = foldl (\<lambda>opts f. applyFilter f opts)
                      \<lparr>fo_sagaId = [], fo_status = [], fo_sagaType = []\<rparr> filters;
             conditions = buildConditions opts
         in if length conditions = 0 then (Inl AllFiltersEmpty, [])
            else
              (case queryErr drv of
                 Some err \<Rightarrow> (Inl (WithStack err), [conditions])
               | None \<Rightarrow>
                   (case collectRows drv 0 (leftJoin conditions db) [] of
                      Inl err \<Rightarrow> (Inl err, [conditions])
                    | Inr sagas \<Rightarrow>
                        (case rowsErr drv of
                           Some err \<Rightarrow> (Inr [], [conditions])
                         | None \<Rightarrow> (Inr (map snd sagas), [conditions]))))))"

section \<open>Observations and example inputs\<close>

text \<open>The log line a failing \<^verbatim>\<open>mutex.Release\<close> leaves behind.\<close>

definition releaseLog :: "('st, 'sg) deps \<Rightarrow> string \<Rightarrow> 'sg effect list" where
  "releaseLog d sagaId =
     (case mutex_Release d sagaId of
        None \<Rightarrow> []
      | Some err \<Rightarrow> [Logged ErrorLevel (MutexReleaseFailed err)])"

text \<open>
  The calls of \<^verbatim>\<open>execCtx.Send\<close> in a trace: the payload, the address of the message's
  header map, and the \<open>saga_uid\<close> header at the moment of the call.
\<close>

fun sendsOf :: "'sg effect list \<Rightarrow> (Object \<times> ref \<times> string option) list" where
  "sendsOf [] = []"
| "sendsOf (SendCall m h opts # tr) = (out_Payload m, out_Headers m, h sagaUIDKey) # sendsOf tr"
| "sendsOf (_ # tr) = sendsOf tr"

definition emptyWorld :: "(unit, unit) world" where
  "emptyWorld = \<lparr>store = (), heap = (\<lambda>_. Map.empty), trace = []\<rparr>"

text \<open>Workers that never finish, under a context that is already done.\<close>

definition alwaysBusy :: "nat \<Rightarrow> nat" where
  "alwaysBusy k = 1"

definition ctxExpired :: "nat \<Rightarrow> select_case" where
  "ctxExpired i = CtxDone"

text \<open>One worker that is busy for the first four readings, and a ticker that fires.\<close>

definition busyForOneTick :: "nat \<Rightarrow> nat" where
  "busyForOneTick k = (if k < 4 then 1 else 0)"

definition tickerFires :: "nat \<Rightarrow> select_case" where
  "tickerFires i = TickerFired"

text \<open>
  A saga \<open>s1\<close> with parent \<open>s0\<close> in an in-memory store.  Its handler for
  \<open>demo/FooEvent\<close> completes the saga and dispatches one command; it has no handler
  for any other event.  The incoming envelope's header map lives at address 0.
\<close>

definition fooEventGK :: GroupKind where
  "fooEventGK = (''demo'', ''FooEvent'')"

definition barCommand :: Delivery where
  "barCommand = \<lparr>dl_Payload = UserObject (''demo'', ''BarCommand'') ''{}'', dl_Options = []\<rparr>"

definition completeAndDispatch :: "unit Executor" where
  "completeAndDispatch sagaCtx =
     (None, sagaCtx\<lparr>sctx_SagaInstance := (sctx_SagaInstance sagaCtx)\<lparr>inst_status := StatusCompleted\<rparr>,
                    sctx_Deliveries := sctx_Deliveries sagaCtx @ [barCommand]\<rparr>)"

definition demoMint :: "Object \<Rightarrow> nat \<Rightarrow> Object HistoryEvent" where
  "demoMint payload n =
     \<lparr>ev_ID = ''ev'', ev_Name = snd (GroupKindOf payload), ev_Type = ''event'',
      ev_SagaStatus = [], ev_Payload = payload, ev_Description = [], ev_OriginSource = [],
      ev_CreatedAt = 7, ev_TraceUID = []\<rparr>"

definition demoDeps :: "(string \<rightharpoonup> (unit, Object) sagaInstance, unit) deps" where
  "demoDeps =
     \<lparr>sagaStore_GetById = (\<lambda>st sagaId. Inr (st sagaId)),
      sagaStore_Update = (\<lambda>st sagaInstance. (None, st(inst_id sagaInstance \<mapsto> sagaInstance))),
      mutex_Lock = (\<lambda>sagaId. None),
      mutex_Release = (\<lambda>sagaId. None),
      saga_Init = (\<lambda>saga. saga),
      saga_EventHandlers = (\<lambda>saga. [fooEventGK \<mapsto> completeAndDispatch]),
      execCtx_Send = (\<lambda>outcomingMsg headers opts. None),
      clock = 7,
      mintHistoryEvent = demoMint\<rparr>"

definition childInstance :: "status \<Rightarrow> (unit, Object) sagaInstance" where
  "childInstance st =
     \<lparr>inst_id = ''s1'', inst_parentID = ''s0'', inst_status = st, inst_saga = (),
      inst_startedAt = Some 1, inst_updatedAt = Some 1, inst_historyEvents = []\<rparr>"

definition demoWorld :: "status \<Rightarrow> (string \<rightharpoonup> (unit, Object) sagaInstance, unit) world" where
  "demoWorld st =
     \<lparr>store = [''s1'' \<mapsto> childInstance st],
      heap = (\<lambda>r. Map.empty)(0 := [sagaUIDKey \<mapsto> ''s1'']),
      trace = []\<rparr>"

definition noSagaWorld :: "(string \<rightharpoonup> (unit, Object) sagaInstance, unit) world" where
  "noSagaWorld =
     \<lparr>store = Map.empty, heap = (\<lambda>r. Map.empty)(0 := [sagaUIDKey \<mapsto> ''s1'']), trace = []\<rparr>"

definition fooMsg :: ReceivedMessage where
  "fooMsg = \<lparr>msg_UID = ''m1'', msg_Payload = UserObject fooEventGK ''{}'', msg_Headers = 0,
            msg_Origin = ''demo-queue''\<rparr>"

definition unhandledMsg :: ReceivedMessage where
  "unhandledMsg = \<lparr>msg_UID = ''m2'', msg_Payload = UserObject (''demo'', ''Unhandled'') ''{}'',
                  msg_Headers = 0, msg_Origin = ''demo-queue''\<rparr>"

definition demoPkg :: "string \<Rightarrow> IncomingPkg" where
  "demoPkg uid = \<lparr>pkg_UID = uid, pkg_Origin = ''demo-queue'', pkg_Body = ''{}'',
                 pkg_AckResult = None\<rparr>"

definition demoDecode :: "IncomingPkg \<Rightarrow> error + ReceivedMessage" where
  "demoDecode inPkg = Inr (if pkg_UID inPkg = ''m1'' then fooMsg else unhandledMsg)"

definition okProcessor ::
  "Context \<Rightarrow> IncomingPkg \<Rightarrow> (unit, unit) world \<Rightarrow> error option \<times> (unit, unit) world" where
  "okProcessor ctx inPkg w = (None, w)"

text \<open>
  A driver that never fails on its own, over string payloads.  The table holds saga
  \<open>s1\<close> with two persisted history events \<open>a\<close> and \<open>b\<close>.
\<close>

definition okDriver :: "(string, string) driver" where
  "okDriver =
     \<lparr>marshalSaga = Inr, marshalPayload = Inr, sagaName = (\<lambda>saga. ''DemoSaga''),
      StatusFromStr = (\<lambda>st. Inr StatusInProgress), LoadType = (\<lambda>name. Inr []),
      Unmarshal = (\<lambda>payload obj. Inr payload), asSaga = Some, ParseMessageType = Inr,
      beginErr = None, updateErr = None, selectErr = None, scanErr = (\<lambda>n. None),
      insertErr = (\<lambda>eventId. None), commitErr = None, rollbackErr = None,
      queryErr = None, rowsErr = None\<rparr>"

definition storedEvent :: "string \<Rightarrow> history_row" where
  "storedEvent eventId =
     \<lparr>h_id = eventId, h_saga_id = ''s1'', h_name = ''FooEvent'', h_type = ''event'',
      h_status = ''InProgress'', h_payload = ''{}'', h_description = [],
      h_origin_source = ''demo-queue'', h_created_at = 1\<rparr>"

definition demoDb :: database where
  "demoDb =
     \<lparr>saga_tbl = [\<lparr>s_id = ''s1'', s_parent_id = [], s_name = ''DemoSaga'', s_payload = ''{}'',
                    s_status = ''InProgress'', s_started_at = Some 1, s_updated_at = Some 1\<rparr>],
      history_tbl = [storedEvent ''a'', storedEvent ''b'']\<rparr>"

definition memoryEvent :: "string \<Rightarrow> string HistoryEvent" where
  "memoryEvent eventId =
     \<lparr>ev_ID = eventId, ev_Name = ''FooEvent'', ev_Type = ''event'', ev_SagaStatus = ''InProgress'',
      ev_Payload = ''{}'', ev_Description = [], ev_OriginSource = ''demo-queue'',
      ev_CreatedAt = 2, ev_TraceUID = []\<rparr>"

definition storedInstance :: "string list \<Rightarrow> (string, string) sagaInstance" where
  "storedInstance eventIds =
     \<lparr>inst_id = ''s1'', inst_parentID = [], inst_status = StatusInProgress, inst_saga = ''{}'',
      inst_startedAt = Some 1, inst_updatedAt = Some 2,
      inst_historyEvents = map memoryEvent eventIds\<rparr>"

section \<open>Properties of the AMQP options\<close>

text \<open>
  C9.  The claim wants \<^verbatim>\<open>WithImmediate()\<close> to set \<open>Immediate\<close> and to leave
  \<open>Mandatory\<close> alone.  On the zero \<open>SendOptions\<close> the code does the opposite: after
  \<^verbatim>\<open>WithImmediate()\<close> the \<open>Mandatory\<close> flag is set and \<open>Immediate\<close> is still clear,
  and \<^verbatim>\<open>amqpTransport.Send\<close> publishes with (mandatory, immediate) = (true, false).
\<close>

theorem WithImmediate_sets_Mandatory:
  "WithImmediate (SendOpts \<lparr>Mandatory = False, Immediate = False\<rparr>)
     = Inr (SendOpts \<lparr>Mandatory = True, Immediate = False\<rparr>)
   \<and> publishFlags [WithImmediate] = Inr (True, False)"
  by (simp add: WithImmediate_def convertSendOptsType_def publishFlags_def zeroSendOptions_def)

section \<open>Properties of the subscriber\<close>

lemma emit_simps [simp]:
  "store (emit e w) = store w"
  "heap (emit e w) = heap w"
  "trace (emit e w) = trace w @ [e]"
  by (simp_all add: emit_def)

text \<open>
  C8.  \<^verbatim>\<open>processPackage\<close> runs the Processor under the context derived with
  \<open>packageProcessingMaxTime\<close>, which is 60 seconds: the derived deadline is at most 60 s
  from now, and exactly that when the parent has none.  Whatever the Processor did, the
  effects \<^verbatim>\<open>processPackage\<close> adds contain the ack of the envelope if and only if the
  Processor returned no error; on an error they are the one error log line.
\<close>

theorem processPackage_acks_iff_processor_succeeds:
  assumes "processor (WithTimeout now ctx packageProcessingMaxTime) inPkg w = (r, w1)"
  shows "\<exists>own d.
           trace (processPackage processor now ctx inPkg w) = trace w1 @ own
         \<and> (Acked (pkg_UID inPkg) \<in> set own \<longleftrightarrow> r = None)
         \<and> (\<forall>err. r = Some err \<longrightarrow>
              own = [Logged ErrorLevel (ErrorProcessingPkg (pkg_UID inPkg) (pkg_Origin inPkg) err)])
         \<and> store (processPackage processor now ctx inPkg w) = store w1
         \<and> heap (processPackage processor now ctx inPkg w) = heap w1
         \<and> packageProcessingMaxTime = 60 * 1000000000
         \<and> ctx_deadline (WithTimeout now ctx packageProcessingMaxTime) = Some d
         \<and> d \<le> now + 60 * 1000000000
         \<and> (ctx_deadline ctx = None \<longrightarrow> d = now + 60 * 1000000000)"
  using assms
  by (cases r; cases "pkg_AckResult inPkg"; cases "ctx_deadline ctx")
     (auto simp: processPackage_def Let_def Ack_def emit_def WithTimeout_def
        packageProcessingMaxTime_def Second_def)

theorem processPackage_acks_iff_processor_succeeds_witness:
  "Acked ''m1'' \<in> set (trace (processPackage okProcessor 0 \<lparr>ctx_deadline = None\<rparr> (demoPkg ''m1'') emptyWorld))"
  using processPackage_acks_iff_processor_succeeds
          [of okProcessor 0 "\<lparr>ctx_deadline = None\<rparr>" "demoPkg ''m1''" emptyWorld None emptyWorld]
  by (auto simp: okProcessor_def demoPkg_def)

lemma waitForWorkers_Some:
  "waitForWorkers fuel busy sel k i w = Some (b, w') \<Longrightarrow>
   \<exists>n. n < fuel
     \<and> (\<forall>j<n. 0 < busy (k + 2 * j) \<and> sel (i + j) = TickerFired)
     \<and> (if b then busy (k + 2 * n) = 0 else 0 < busy (k + 2 * n) \<and> sel (i + n) = CtxDone)
     \<and> store w' = store w \<and> heap w' = heap w
     \<and> trace w' = trace w
          @ map (\<lambda>j. Logged InfoLevel (WaitingForTasks (busy (k + 2 * j + 1)))) [0..<n]
          @ (if b then [] else [Logged WarnLevel StoppedCanceledCtx])"
proof (induction fuel arbitrary: k i w)
  case 0
  then show ?case by simp
next
  case (Suc fuel)
  show ?case
  proof (cases "0 < busy k")
    case False
    with Suc.prems have "b" "w' = w" by auto
    with False show ?thesis by (intro exI[of _ 0]) simp
  next
    case True
    show ?thesis
    proof (cases "sel i")
      case CtxDone
      with True Suc.prems have "\<not> b" "w' = emit (Logged WarnLevel StoppedCanceledCtx) w" by auto
      with True CtxDone show ?thesis by (intro exI[of _ 0]) (simp add: emit_def)
    next
      case TickerFired
      let ?w1 = "emit (Logged InfoLevel (WaitingForTasks (busy (k + 1)))) w"
      from True TickerFired Suc.prems
      have "waitForWorkers fuel busy sel (k + 2) (Suc i) ?w1 = Some (b, w')" by simp
      from Suc.IH[OF this] obtain n where n: "n < fuel"
        "\<forall>j<n. 0 < busy (k + 2 + 2 * j) \<and> sel (Suc i + j) = TickerFired"
        "if b then busy (k + 2 + 2 * n) = 0 else 0 < busy (k + 2 + 2 * n) \<and> sel (Suc i + n) = CtxDone"
        "store w' = store ?w1" "heap w' = heap ?w1"
        "trace w' = trace ?w1
          @ map (\<lambda>j. Logged InfoLevel (WaitingForTasks (busy (k + 2 + 2 * j + 1)))) [0..<n]
          @ (if b then [] else [Logged WarnLevel StoppedCanceledCtx])" by blast
      have all: "\<forall>j<Suc n. 0 < busy (k + 2 * j) \<and> sel (i + j) = TickerFired"
      proof (intro allI impI)
        fix j assume "j < Suc n"
        show "0 < busy (k + 2 * j) \<and> sel (i + j) = TickerFired"
        proof (cases j)
          case 0 with True TickerFired show ?thesis by simp
        next
          case (Suc j')
          with \<open>j < Suc n\<close> n(2) have "0 < busy (k + 2 + 2 * j') \<and> sel (Suc i + j') = TickerFired" by simp
          with Suc show ?thesis by (simp add: add.commute add.left_commute)
        qed
      qed
      have m: "map (\<lambda>j. Logged InfoLevel (WaitingForTasks (busy (k + 2 * j + 1)))) [0..<Suc n]
          = Logged InfoLevel (WaitingForTasks (busy (k + 1)))
            # map (\<lambda>j. Logged InfoLevel (WaitingForTasks (busy (k + 2 + 2 * j + 1)))) [0..<n]"
        by (simp add: upt_conv_Cons map_Suc_upt[symmetric] del: upt_Suc) 
      have c1: "Suc n < Suc fuel" using n(1) by simp
      have c3: "if b then busy (k + 2 * Suc n) = 0
                else 0 < busy (k + 2 * Suc n) \<and> sel (i + Suc n) = CtxDone"
        using n(3) by (cases b) simp_all
      have c4: "store w' = store w" using n(4) by (simp add: emit_def)
      have c5: "heap w' = heap w" using n(5) by (simp add: emit_def)
      have c6: "trace w' = trace w
          @ map (\<lambda>j. Logged InfoLevel (WaitingForTasks (busy (k + 2 * j + 1)))) [0..<Suc n]
          @ (if b then [] else [Logged WarnLevel StoppedCanceledCtx])"
        using n(6) unfolding m by (simp add: emit_def)
      show ?thesis
        by (intro exI[of _ "Suc n"] conjI c1 all c3 c4 c5 c6)
    qed
  qed
qed


lemma waitForWorkers_returns:
  "(\<forall>j<n. 0 < busy (k + 2 * j) \<and> sel (i + j) = TickerFired) \<Longrightarrow>
   busy (k + 2 * n) = 0 \<or> sel (i + n) = CtxDone \<Longrightarrow> n < fuel \<Longrightarrow>
   waitForWorkers fuel busy sel k i w \<noteq> None"
proof (induction n arbitrary: fuel k i w)
  case 0
  then obtain f where "fuel = Suc f" by (cases fuel) auto
  with 0 show ?case by (auto split: select_case.splits)
next
  case (Suc n)
  then obtain f where f: "fuel = Suc f" "n < f" by (cases fuel) auto
  from Suc.prems(1) have h0: "0 < busy k" "sel i = TickerFired" by force+
  have "\<forall>j<n. 0 < busy (k + 2 + 2 * j) \<and> sel (Suc i + j) = TickerFired"
  proof (intro allI impI)
    fix j assume "j < n"
    then have "Suc j < Suc n" by simp
    with Suc.prems(1) have "0 < busy (k + 2 * Suc j) \<and> sel (i + Suc j) = TickerFired" by blast
    then show "0 < busy (k + 2 + 2 * j) \<and> sel (Suc i + j) = TickerFired" by simp
  qed
  moreover from Suc.prems(2) have "busy (k + 2 + 2 * n) = 0 \<or> sel (Suc i + n) = CtxDone" by simp
  ultimately have "waitForWorkers f busy sel (k + 2) (Suc i)
      (emit (Logged InfoLevel (WaitingForTasks (busy (k + 1)))) w) \<noteq> None"
    using f(2) by (rule Suc.IH)
  with h0 f show ?case by simp
qed

lemma Stop_unfold:
  "Stop fuel busy sel disconnect w =
     (case waitForWorkers fuel busy sel (if 0 < busy 0 then 2 else 1) 0
             (if 0 < busy 0 then emit (Logged InfoLevel (GracefulShutdownWaiting (busy 1))) w else w) of
        None \<Rightarrow> None
      | Some (b, w1) \<Rightarrow>
          Some (if b then disconnect else None,
                if b then emit Disconnected (emit (Logged InfoLevel AllTasksFinished) w1) else w1))"
  by (simp add: Stop_def split: option.splits bool.splits)

text \<open>
  C7, as the claim states it, fails: with a worker still busy and the context done,
  \<^verbatim>\<open>Stop\<close> logs the warning and returns nil without calling \<^verbatim>\<open>Transport.Disconnect\<close>.
\<close>

theorem Stop_skips_Disconnect_on_expired_ctx:
  "Stop 1 alwaysBusy ctxExpired None emptyWorld
     = Some (None, emptyWorld\<lparr>trace := [Logged InfoLevel (GracefulShutdownWaiting 1),
                                         Logged WarnLevel StoppedCanceledCtx]\<rparr>)
   \<and> Disconnected \<notin> set [Logged InfoLevel (GracefulShutdownWaiting 1),
                          Logged WarnLevel StoppedCanceledCtx :: unit effect]"
  by (simp add: Stop_def emptyWorld_def emit_def alwaysBusy_def ctxExpired_def)

text \<open>
  C7, amended.  \<^verbatim>\<open>Stop\<close> reads \<^verbatim>\<open>busyWorkers()\<close> before every wait and waits for the
  one-second ticker while workers are busy.  It returns as soon as a reading is zero or
  a \<^verbatim>\<open>select\<close> takes \<^verbatim>\<open>ctx.Done()\<close> (with fuel for that many rounds it does return).
  After a zero reading it logs, calls \<^verbatim>\<open>Transport.Disconnect\<close> and returns its result;
  after \<^verbatim>\<open>ctx.Done()\<close> it logs a warning and returns nil, and \<^verbatim>\<open>Disconnect\<close> is not
  called.
\<close>

theorem Stop_returns_and_disconnects_when_drained:
  "((\<forall>j<n. 0 < busy ((if 0 < busy 0 then 2 else 1) + 2 * j) \<and> sel j = TickerFired)
      \<and> (busy ((if 0 < busy 0 then 2 else 1) + 2 * n) = 0 \<or> sel n = CtxDone) \<and> n < fuel
     \<longrightarrow> Stop fuel busy sel disconnect w \<noteq> None)
   \<and> (Stop fuel busy sel disconnect w = Some (r, w') \<longrightarrow>
        (\<exists>m logs. m < fuel
           \<and> (\<forall>j<m. 0 < busy ((if 0 < busy 0 then 2 else 1) + 2 * j) \<and> sel j = TickerFired)
           \<and> logs = (if 0 < busy 0 then [Logged InfoLevel (GracefulShutdownWaiting (busy 1))] else [])
                 @ map (\<lambda>j. Logged InfoLevel
                          (WaitingForTasks (busy ((if 0 < busy 0 then 2 else 1) + 2 * j + 1)))) [0..<m]
           \<and> (if busy ((if 0 < busy 0 then 2 else 1) + 2 * m) = 0
               then r = disconnect
                  \<and> trace w' = trace w @ logs @ [Logged InfoLevel AllTasksFinished, Disconnected]
               else sel m = CtxDone \<and> r = None
                  \<and> trace w' = trace w @ logs @ [Logged WarnLevel StoppedCanceledCtx])))"
proof (intro conjI impI)
  assume a: "(\<forall>j<n. 0 < busy ((if 0 < busy 0 then 2 else 1) + 2 * j) \<and> sel j = TickerFired)
      \<and> (busy ((if 0 < busy 0 then 2 else 1) + 2 * n) = 0 \<or> sel n = CtxDone) \<and> n < fuel"
  let ?k = "if 0 < busy 0 then 2 else 1 :: nat"
  let ?w0 = "if 0 < busy 0 then emit (Logged InfoLevel (GracefulShutdownWaiting (busy 1))) w else w"
  have "waitForWorkers fuel busy sel ?k 0 ?w0 \<noteq> None"
    using a waitForWorkers_returns[of n busy ?k sel 0 fuel ?w0] by simp
  then obtain b w1 where e: "waitForWorkers fuel busy sel ?k 0 ?w0 = Some (b, w1)"
    by (cases "waitForWorkers fuel busy sel ?k 0 ?w0") auto
  show "Stop fuel busy sel disconnect w \<noteq> None"
    by (subst Stop_unfold) (simp only: e option.case prod.case option.distinct not_False_eq_True)
next
  assume s: "Stop fuel busy sel disconnect w = Some (r, w')"
  let ?k = "if 0 < busy 0 then 2 else 1 :: nat"
  let ?w0 = "if 0 < busy 0 then emit (Logged InfoLevel (GracefulShutdownWaiting (busy 1))) w else w"
  obtain b w1 where l: "waitForWorkers fuel busy sel ?k 0 ?w0 = Some (b, w1)"
  proof (cases "waitForWorkers fuel busy sel ?k 0 ?w0")
    case None
    have "Stop fuel busy sel disconnect w = None"
      by (subst Stop_unfold) (simp only: None option.case)
    with s show ?thesis by simp
  next
    case (Some p)
    with that show ?thesis by (cases p) blast
  qed
  have "Stop fuel busy sel disconnect w =
          Some (if b then disconnect else None,
                if b then emit Disconnected (emit (Logged InfoLevel AllTasksFinished) w1) else w1)"
    by (subst Stop_unfold) (simp only: l option.case prod.case)
  with s have rw: "r = (if b then disconnect else None)"
    "w' = (if b then emit Disconnected (emit (Logged InfoLevel AllTasksFinished) w1) else w1)"
    by simp_all
  from waitForWorkers_Some[OF l] obtain m where m: "m < fuel"
    "\<forall>j<m. 0 < busy (?k + 2 * j) \<and> sel (0 + j) = TickerFired"
    "if b then busy (?k + 2 * m) = 0 else 0 < busy (?k + 2 * m) \<and> sel (0 + m) = CtxDone"
    "trace w1 = trace ?w0
          @ map (\<lambda>j. Logged InfoLevel (WaitingForTasks (busy (?k + 2 * j + 1)))) [0..<m]
          @ (if b then [] else [Logged WarnLevel StoppedCanceledCtx])" by blast
  show "\<exists>m logs. m < fuel
           \<and> (\<forall>j<m. 0 < busy (?k + 2 * j) \<and> sel j = TickerFired)
           \<and> logs = (if 0 < busy 0 then [Logged InfoLevel (GracefulShutdownWaiting (busy 1))] else [])
                 @ map (\<lambda>j. Logged InfoLevel (WaitingForTasks (busy (?k + 2 * j + 1)))) [0..<m]
           \<and> (if busy (?k + 2 * m) = 0
               then r = disconnect
                  \<and> trace w' = trace w @ logs @ [Logged InfoLevel AllTasksFinished, Disconnected]
               else sel m = CtxDone \<and> r = None
                  \<and> trace w' = trace w @ logs @ [Logged WarnLevel StoppedCanceledCtx])"
  proof (cases b)
    case True
    with m rw show ?thesis
      by (intro exI[of _ m]) (simp add: emit_def)
  next
    case False
    with m rw show ?thesis
      by (intro exI[of _ m]) (simp add: emit_def)
  qed
qed

theorem Stop_returns_and_disconnects_when_drained_witness:
  "Stop 2 busyForOneTick tickerFires None emptyWorld \<noteq> None
   \<and> (\<exists>w'. Stop 1 alwaysBusy ctxExpired None emptyWorld = Some (None, w')
          \<and> trace w' = [Logged InfoLevel (GracefulShutdownWaiting 1),
                        Logged WarnLevel StoppedCanceledCtx])"
proof -
  have "Stop 1 alwaysBusy ctxExpired None emptyWorld
     = Some (None, emptyWorld\<lparr>trace := [Logged InfoLevel (GracefulShutdownWaiting 1),
                                         Logged WarnLevel StoppedCanceledCtx]\<rparr>)"
    by (simp add: Stop_def emptyWorld_def emit_def alwaysBusy_def ctxExpired_def)
  then show ?thesis
    using Stop_returns_and_disconnects_when_drained
            [of 1 busyForOneTick tickerFires 2 None emptyWorld]
          Stop_returns_and_disconnects_when_drained
            [of 0 alwaysBusy ctxExpired 1 None emptyWorld None
                "emptyWorld\<lparr>trace := [Logged InfoLevel (GracefulShutdownWaiting 1),
                                         Logged WarnLevel StoppedCanceledCtx]\<rparr>"]
    by (simp add: busyForOneTick_def tickerFires_def alwaysBusy_def ctxExpired_def emptyWorld_def)
qed

section \<open>Properties of the saga events handler\<close>

lemma AddSagaId_simps [simp]:
  "store (AddSagaId r u w) = store w"
  "trace (AddSagaId r u w) = trace w"
  "heap (AddSagaId r u w) = (heap w)(r := (heap w r)(sagaUIDKey \<mapsto> u))"
  by (simp_all add: AddSagaId_def)


lemma releaseMutex_simps [simp]:
  "store (releaseMutex d sagaId w) = store w"
  "heap (releaseMutex d sagaId w) = heap w"
  "trace (releaseMutex d sagaId w) = trace w @ MutexReleaseCalled sagaId # releaseLog d sagaId"
  by (simp_all add: releaseMutex_def releaseLog_def split: option.splits)

lemma sendsOf_append [simp]: "sendsOf (xs @ ys) = sendsOf xs @ sendsOf ys"
  by (induction xs rule: sendsOf.induct) simp_all

lemma sendsOf_releaseLog [simp]: "sendsOf (releaseLog d sagaId) = []"
  by (simp add: releaseLog_def split: option.splits)

lemma releaseLog_cases:
  "releaseLog d sagaId = [] \<or> (\<exists>err. releaseLog d sagaId = [Logged ErrorLevel (MutexReleaseFailed err)])"
  by (simp add: releaseLog_def split: option.splits)

lemma sendDeliveries_effects:
  "sendDeliveries d msg inst dls w = (r, w') \<Longrightarrow>
   \<exists>k tl. k \<le> length dls
     \<and> store w' = store w
     \<and> heap w' = (if dls = [] then heap w
                  else (heap w)(msg_Headers msg :=
                          (heap w (msg_Headers msg))(sagaUIDKey \<mapsto> inst_id inst)))
     \<and> trace w' = trace w
          @ map (\<lambda>dl. SendCall \<lparr>out_Payload = dl_Payload dl, out_Headers = msg_Headers msg\<rparr>
                         ((heap w (msg_Headers msg))(sagaUIDKey \<mapsto> inst_id inst))
                         (dl_Options dl))
                (take k dls)
          @ tl
     \<and> (case r of None \<Rightarrow> k = length dls \<and> tl = []
         | Some e \<Rightarrow> \<exists>dl err. dl \<in> set dls
              \<and> tl = [Logged ErrorLevel (ErrorSendingDelivery (inst_id inst) dl err)])"
proof (induction dls arbitrary: w)
  case Nil
  then show ?case by (cases r) auto
next
  case (Cons dl dls)
  let ?r = "msg_Headers msg"
  let ?H = "(heap w ?r)(sagaUIDKey \<mapsto> inst_id inst)"
  let ?w1 = "AddSagaId ?r (inst_id inst) w"
  let ?m = "NewOutcomingMessage (dl_Payload dl) ?r"
  let ?send = "SendCall \<lparr>out_Payload = dl_Payload dl, out_Headers = ?r\<rparr> ?H (dl_Options dl)"
  let ?w2 = "emit ?send ?w1"
  have snd_send: "snd (Send d ?m (dl_Options dl) ?w1) = ?w2"
    by (simp add: Send_def NewOutcomingMessage_def)
  have hw2: "heap ?w2 = (heap w)(?r := ?H)" "store ?w2 = store w" "trace ?w2 = trace w @ [?send]"
    by simp_all
  have hw2r: "heap ?w2 ?r = ?H" by simp
  have idem: "?H(sagaUIDKey \<mapsto> inst_id inst) = ?H" by simp
  have idem2: "((heap w)(?r := ?H))(?r := ?H) = (heap w)(?r := ?H)" by simp
  show ?case
  proof (cases "fst (Send d ?m (dl_Options dl) ?w1)")
    case (Some err)
    with Cons.prems snd_send
    have r: "r = Some (Wrapf err ''sending delivery for saga'')"
      and w': "w' = emit (Logged ErrorLevel (ErrorSendingDelivery (inst_id inst) dl err)) ?w2"
      by (auto simp: Let_def split: prod.splits option.splits)
    have t: "trace w' = trace w @ [?send] @ [Logged ErrorLevel (ErrorSendingDelivery (inst_id inst) dl err)]"
      unfolding w' by simp
    have h: "heap w' = (heap w)(?r := ?H)" unfolding w' by simp
    have st: "store w' = store w" unfolding w' by simp
    show ?thesis
      apply (rule exI[of _ 1])
      apply (rule exI[of _ "[Logged ErrorLevel (ErrorSendingDelivery (inst_id inst) dl err)]"])
      unfolding r using t h st by auto
  next
    case None
    with Cons.prems snd_send
    have rec: "sendDeliveries d msg inst dls ?w2 = (r, w')"
      by (auto simp: Let_def split: prod.splits option.splits)
    from Cons.IH[OF rec] obtain k tl where k: "k \<le> length dls" "store w' = store ?w2"
      "heap w' = (if dls = [] then heap ?w2
                  else (heap ?w2)(?r := (heap ?w2 ?r)(sagaUIDKey \<mapsto> inst_id inst)))"
      "trace w' = trace ?w2
          @ map (\<lambda>dl. SendCall \<lparr>out_Payload = dl_Payload dl, out_Headers = ?r\<rparr>
                         ((heap ?w2 ?r)(sagaUIDKey \<mapsto> inst_id inst)) (dl_Options dl))
                (take k dls)
          @ tl"
      "case r of None \<Rightarrow> k = length dls \<and> tl = []
         | Some e \<Rightarrow> \<exists>dl err. dl \<in> set dls
              \<and> tl = [Logged ErrorLevel (ErrorSendingDelivery (inst_id inst) dl err)]"
      by blast
    have h: "heap w' = (heap w)(?r := ?H)"
      using k(3) unfolding hw2r idem unfolding hw2 idem2 by (simp split: if_splits)
    have t: "trace w' = trace w
          @ map (\<lambda>dl. SendCall \<lparr>out_Payload = dl_Payload dl, out_Headers = ?r\<rparr> ?H (dl_Options dl))
                (take (Suc k) (dl # dls))
          @ tl"
      using k(4) unfolding hw2r idem unfolding hw2 by simp
    have c: "case r of None \<Rightarrow> Suc k = length (dl # dls) \<and> tl = []
         | Some e \<Rightarrow> \<exists>dl' err. dl' \<in> set (dl # dls)
              \<and> tl = [Logged ErrorLevel (ErrorSendingDelivery (inst_id inst) dl' err)]"
      using k(5) by (cases r) auto
    have st: "store w' = store w" using k(2) by simp
    have kk: "Suc k \<le> length (dl # dls)" using k(1) by simp
    have h': "heap w' = (if dl # dls = [] then heap w else (heap w)(?r := ?H))"
      using h by simp
    show ?thesis
      apply (rule exI[of _ "Suc k"])
      apply (rule exI[of _ tl])
      by (intro conjI kk st h' t c)
  qed
qed


lemma Handle_locked:
  "ExtractSagaUID (heap w (msg_Headers msg)) = Inr sagaId \<Longrightarrow> mutex_Lock d sagaId = None \<Longrightarrow>
   Handle d msg w =
     (fst (handleLocked d msg sagaId (emit (MutexLocked sagaId) w)),
      releaseMutex d sagaId (snd (handleLocked d msg sagaId (emit (MutexLocked sagaId) w))))"
  by (simp add: Handle_def)

lemma handleLocked_not_found:
  "sagaStore_GetById d (store w) sagaId = Inr None \<Longrightarrow>
   handleLocked d msg sagaId w = (Some (SagaNotFound sagaId), emit (StoreGetById sagaId) w)"
  by (simp add: handleLocked_def storeGetById_def)

lemma handleLocked_completed:
  "sagaStore_GetById d (store w) sagaId = Inr (Some loaded) \<Longrightarrow> Completed (inst_status loaded) \<Longrightarrow>
   handleLocked d msg sagaId w = (Some (SagaAlreadyCompleted sagaId), emit (StoreGetById sagaId) w)"
  by (simp add: handleLocked_def storeGetById_def)

lemma handleLocked_no_handler:
  "sagaStore_GetById d (store w) sagaId = Inr (Some loaded) \<Longrightarrow> \<not> Completed (inst_status loaded) \<Longrightarrow>
   saga_EventHandlers d (saga_Init d (inst_saga loaded)) (GroupKindOf (msg_Payload msg)) = None \<Longrightarrow>
   handleLocked d msg sagaId w =
     persistAndNotify d msg
       (NewSagaCtx (Progress (clock d) (loaded\<lparr>inst_saga := saga_Init d (inst_saga loaded)\<rparr>)))
       (emit (Logged WarnLevel (NoHandlerDefined (GroupKindOf (msg_Payload msg)) (msg_UID msg)))
          (emit (StoreGetById sagaId) w))"
  by (simp add: handleLocked_def storeGetById_def Let_def)

lemma handleLocked_handler_ok:
  "sagaStore_GetById d (store w) sagaId = Inr (Some loaded) \<Longrightarrow> \<not> Completed (inst_status loaded) \<Longrightarrow>
   saga_EventHandlers d (saga_Init d (inst_saga loaded)) (GroupKindOf (msg_Payload msg)) = Some handler \<Longrightarrow>
   handler (NewSagaCtx (Progress (clock d) (loaded\<lparr>inst_saga := saga_Init d (inst_saga loaded)\<rparr>)))
     = (None, sagaCtx') \<Longrightarrow>
   handleLocked d msg sagaId w =
     (case sendDeliveries d msg (sctx_SagaInstance sagaCtx') (sctx_Deliveries sagaCtx')
             (emit (HandlerCalled (GroupKindOf (msg_Payload msg))) (emit (StoreGetById sagaId) w)) of
        (Some err, w2) \<Rightarrow> (Some err, w2)
      | (None, w2) \<Rightarrow> persistAndNotify d msg sagaCtx' w2)"
  by (simp add: handleLocked_def storeGetById_def Let_def)

lemma AddHistoryEvent_fields [simp]:
  "inst_id (AddHistoryEvent d p origin t i) = inst_id i"
  "inst_parentID (AddHistoryEvent d p origin t i) = inst_parentID i"
  "inst_status (AddHistoryEvent d p origin t i) = inst_status i"
  "inst_saga (AddHistoryEvent d p origin t i) = inst_saga i"
  by (simp_all add: AddHistoryEvent_def)

lemma foldl_AddHistoryEvent_fields [simp]:
  "inst_id (foldl (\<lambda>i ev. AddHistoryEvent d (dl_Payload ev) [] [] i) i0 dls) = inst_id i0"
  "inst_parentID (foldl (\<lambda>i ev. AddHistoryEvent d (dl_Payload ev) [] [] i) i0 dls) = inst_parentID i0"
  "inst_status (foldl (\<lambda>i ev. AddHistoryEvent d (dl_Payload ev) [] [] i) i0 dls) = inst_status i0"
  by (induction dls arbitrary: i0) simp_all

lemma recordHistory_fields [simp]:
  "inst_id (recordHistory d msg sagaCtx) = inst_id (sctx_SagaInstance sagaCtx)"
  "inst_parentID (recordHistory d msg sagaCtx) = inst_parentID (sctx_SagaInstance sagaCtx)"
  "inst_status (recordHistory d msg sagaCtx) = inst_status (sctx_SagaInstance sagaCtx)"
  by (simp_all add: recordHistory_def)

lemma persistAndNotify_update_failed:
  "fst (sagaStore_Update d (store w) (recordHistory d msg sagaCtx)) = Some err \<Longrightarrow>
   persistAndNotify d msg sagaCtx w =
     (Some (Wrapf err ''error saving saga state to db''),
      emit (StoreUpdate (recordHistory d msg sagaCtx))
        (w\<lparr>store := snd (sagaStore_Update d (store w) (recordHistory d msg sagaCtx))\<rparr>))"
  by (simp add: persistAndNotify_def storeUpdate_def Let_def)

lemma persistAndNotify_quiet:
  "fst (sagaStore_Update d (store w) (recordHistory d msg sagaCtx)) = None \<Longrightarrow>
   \<not> (Completed (inst_status (sctx_SagaInstance sagaCtx)) \<and> inst_parentID (sctx_SagaInstance sagaCtx) \<noteq> []) \<Longrightarrow>
   persistAndNotify d msg sagaCtx w =
     (None,
      emit (StoreUpdate (recordHistory d msg sagaCtx))
        (w\<lparr>store := snd (sagaStore_Update d (store w) (recordHistory d msg sagaCtx))\<rparr>))"
  by (auto simp: persistAndNotify_def storeUpdate_def Let_def)

lemma persistAndNotify_parent:
  "fst (sagaStore_Update d (store w) (recordHistory d msg sagaCtx)) = None \<Longrightarrow>
   Completed (inst_status (sctx_SagaInstance sagaCtx)) \<Longrightarrow> inst_parentID (sctx_SagaInstance sagaCtx) \<noteq> [] \<Longrightarrow>
   persistAndNotify d msg sagaCtx w =
     (execCtx_Send d
        \<lparr>out_Payload = SagaChildCompletedEvent (inst_id (sctx_SagaInstance sagaCtx)),
         out_Headers = msg_Headers msg\<rparr>
        ((heap w (msg_Headers msg))(sagaUIDKey \<mapsto> inst_parentID (sctx_SagaInstance sagaCtx))) [],
      emit (SendCall
              \<lparr>out_Payload = SagaChildCompletedEvent (inst_id (sctx_SagaInstance sagaCtx)),
               out_Headers = msg_Headers msg\<rparr>
              ((heap w (msg_Headers msg))(sagaUIDKey \<mapsto> inst_parentID (sctx_SagaInstance sagaCtx))) [])
        (AddSagaId (msg_Headers msg) (inst_parentID (sctx_SagaInstance sagaCtx))
           (emit (StoreUpdate (recordHistory d msg sagaCtx))
              (w\<lparr>store := snd (sagaStore_Update d (store w) (recordHistory d msg sagaCtx))\<rparr>))))"
  by (simp add: persistAndNotify_def storeUpdate_def Let_def Send_def NewOutcomingMessage_def)

lemma handlerCalled_notin_releaseLog [simp]: "HandlerCalled gk \<notin> set (releaseLog d sagaId)"
  "StoreUpdate i \<notin> set (releaseLog d sagaId)" "Acked u \<notin> set (releaseLog d sagaId)"
  by (simp_all add: releaseLog_def split: option.splits)

lemma Handle_rejected:
  assumes "ExtractSagaUID (heap w (msg_Headers msg)) = Inr sagaId"
    and "mutex_Lock d sagaId = None"
    and "handleLocked d msg sagaId (emit (MutexLocked sagaId) w)
           = (Some err, emit (StoreGetById sagaId) (emit (MutexLocked sagaId) w))"
  shows "fst (Handle d msg w) = Some err"
    and "store (snd (Handle d msg w)) = store w"
    and "heap (snd (Handle d msg w)) = heap w"
    and "trace (snd (Handle d msg w))
           = trace w @ [MutexLocked sagaId, StoreGetById sagaId, MutexReleaseCalled sagaId]
               @ releaseLog d sagaId"
  using assms by (simp_all add: Handle_locked)

text \<open>
  C2.  Once the saga UID is extracted and the mutex is held: when the store has no
  instance for the UID the turn fails with \<open>SagaNotFound\<close>, and when the loaded instance
  is \<open>Completed\<close> it fails with \<open>SagaAlreadyCompleted\<close>.  In both cases the store and
  the header maps are as before, and the turn did nothing but lock, read the store and
  release: no handler was invoked and \<^verbatim>\<open>Store.Update\<close> was not called.
\<close>

theorem Handle_rejects_missing_and_completed_saga:
  assumes "ExtractSagaUID (heap w (msg_Headers msg)) = Inr sagaId"
    and "mutex_Lock d sagaId = None"
    and "sagaStore_GetById d (store w) sagaId = Inr None
         \<or> (\<exists>loaded. sagaStore_GetById d (store w) sagaId = Inr (Some loaded)
                \<and> Completed (inst_status loaded))"
  shows "fst (Handle d msg w)
           = Some (if sagaStore_GetById d (store w) sagaId = Inr None
                   then SagaNotFound sagaId else SagaAlreadyCompleted sagaId)
       \<and> store (snd (Handle d msg w)) = store w
       \<and> heap (snd (Handle d msg w)) = heap w
       \<and> trace (snd (Handle d msg w))
           = trace w @ [MutexLocked sagaId, StoreGetById sagaId, MutexReleaseCalled sagaId]
               @ releaseLog d sagaId
       \<and> (\<forall>gk. HandlerCalled gk
              \<notin> set ([MutexLocked sagaId, StoreGetById sagaId, MutexReleaseCalled sagaId]
                       @ releaseLog d sagaId))
       \<and> (\<forall>i. StoreUpdate i
              \<notin> set ([MutexLocked sagaId, StoreGetById sagaId, MutexReleaseCalled sagaId]
                       @ releaseLog d sagaId))"
proof -
  let ?w0 = "emit (MutexLocked sagaId) w"
  let ?e = "if sagaStore_GetById d (store w) sagaId = Inr None
            then SagaNotFound sagaId else SagaAlreadyCompleted sagaId"
  have "handleLocked d msg sagaId ?w0 = (Some ?e, emit (StoreGetById sagaId) ?w0)"
    using assms(3)
  proof
    assume n: "sagaStore_GetById d (store w) sagaId = Inr None"
    then have "sagaStore_GetById d (store ?w0) sagaId = Inr None" by simp
    from handleLocked_not_found[OF this] n show ?thesis by simp
  next
    assume "\<exists>loaded. sagaStore_GetById d (store w) sagaId = Inr (Some loaded)
                \<and> Completed (inst_status loaded)"
    then obtain loaded where l: "sagaStore_GetById d (store w) sagaId = Inr (Some loaded)"
      "Completed (inst_status loaded)" by blast
    then have "sagaStore_GetById d (store ?w0) sagaId = Inr (Some loaded)" by simp
    from handleLocked_completed[OF this l(2)] l(1) show ?thesis by simp
  qed
  from Handle_rejected[OF assms(1,2) this] show ?thesis by simp
qed

theorem Handle_rejects_missing_and_completed_saga_witness:
  "fst (Handle demoDeps fooMsg noSagaWorld) = Some (SagaNotFound ''s1'')
   \<and> fst (Handle demoDeps fooMsg (demoWorld StatusCompleted)) = Some (SagaAlreadyCompleted ''s1'')
   \<and> trace (snd (Handle demoDeps fooMsg (demoWorld StatusCompleted)))
        = [MutexLocked ''s1'', StoreGetById ''s1'', MutexReleaseCalled ''s1'']"
  using Handle_rejects_missing_and_completed_saga [of noSagaWorld fooMsg "''s1''" demoDeps]
        Handle_rejects_missing_and_completed_saga
          [of "demoWorld StatusCompleted" fooMsg "''s1''" demoDeps]
  by (simp add: noSagaWorld_def demoWorld_def fooMsg_def demoDeps_def ExtractSagaUID_def
        sagaUIDKey_def childInstance_def releaseLog_def)

lemma processPackage_succeeded:
  assumes "processor (WithTimeout now ctx packageProcessingMaxTime) inPkg w = (None, w1)"
  shows "trace (processPackage processor now ctx inPkg w) =
           trace w1 @ Acked (pkg_UID inPkg)
             # (case pkg_AckResult inPkg of None \<Rightarrow> []
                | Some err \<Rightarrow> [Logged ErrorLevel (ErrorAckingPackage (pkg_UID inPkg) err)])"
    and "store (processPackage processor now ctx inPkg w) = store w1"
    and "heap (processPackage processor now ctx inPkg w) = heap w1"
  using assms by (simp_all add: processPackage_def Ack_def split: option.splits)

lemma recordHistory_no_deliveries:
  "recordHistory d msg (NewSagaCtx i) = AddHistoryEvent d (msg_Payload msg) (msg_Origin msg) (msg_UID msg) i"
  by (simp add: recordHistory_def NewSagaCtx_def)

lemma persistAndNotify_in_progress:
  assumes "inst_status i = StatusInProgress"
  shows "persistAndNotify d msg (NewSagaCtx i) w =
     (map_option (\<lambda>err. Wrapf err ''error saving saga state to db'')
        (fst (sagaStore_Update d (store w) (recordHistory d msg (NewSagaCtx i)))),
      emit (StoreUpdate (recordHistory d msg (NewSagaCtx i)))
        (w\<lparr>store := snd (sagaStore_Update d (store w) (recordHistory d msg (NewSagaCtx i)))\<rparr>))"
proof (cases "fst (sagaStore_Update d (store w) (recordHistory d msg (NewSagaCtx i)))")
  case None
  have "\<not> (Completed (inst_status (sctx_SagaInstance (NewSagaCtx i)))
           \<and> inst_parentID (sctx_SagaInstance (NewSagaCtx i)) \<noteq> [])"
    using assms by (simp add: NewSagaCtx_def)
  from persistAndNotify_quiet[OF None this] None show ?thesis by simp
next
  case (Some err)
  from persistAndNotify_update_failed[OF Some] Some show ?thesis by simp
qed

text \<open>
  C4.  When the saga has no handler for the (group, kind) of the incoming payload, the
  handler logs a warning, appends the incoming envelope to the history (with its origin,
  its UID as trace UID and the status \<open>InProgress\<close>) and calls \<^verbatim>\<open>Store.Update\<close> with
  that instance.  The turn returns what \<^verbatim>\<open>Store.Update\<close> returns: when the store accepts
  the update the turn does not fail and \<^verbatim>\<open>processPackage\<close> acks the envelope, whatever
  the Processor's answer to failing handlers is.
\<close>

theorem missing_handler_is_not_an_error:
  assumes "decode inPkg = Inr msg"
    and "ExtractSagaUID (heap w (msg_Headers msg)) = Inr sagaId"
    and "mutex_Lock d sagaId = None"
    and "sagaStore_GetById d (store w) sagaId = Inr (Some loaded)"
    and "\<not> Completed (inst_status loaded)"
    and "saga_EventHandlers d (saga_Init d (inst_saga loaded)) (GroupKindOf (msg_Payload msg)) = None"
    and "persisted = AddHistoryEvent d (msg_Payload msg) (msg_Origin msg) (msg_UID msg)
                       (Progress (clock d) (loaded\<lparr>inst_saga := saga_Init d (inst_saga loaded)\<rparr>))"
  shows "(\<exists>ev. inst_historyEvents persisted = inst_historyEvents loaded @ [ev]
            \<and> ev_Payload ev = msg_Payload msg \<and> ev_OriginSource ev = msg_Origin msg
            \<and> ev_TraceUID ev = msg_UID msg \<and> ev_SagaStatus ev = String StatusInProgress)
       \<and> trace (snd (Handle d msg w))
           = trace w @ [MutexLocked sagaId, StoreGetById sagaId,
                        Logged WarnLevel (NoHandlerDefined (GroupKindOf (msg_Payload msg)) (msg_UID msg)),
                        StoreUpdate persisted, MutexReleaseCalled sagaId]
               @ releaseLog d sagaId
       \<and> store (snd (Handle d msg w)) = snd (sagaStore_Update d (store w) persisted)
       \<and> fst (Handle d msg w)
           = map_option (\<lambda>err. Wrapf err ''error saving saga state to db'')
               (fst (sagaStore_Update d (store w) persisted))
       \<and> (fst (sagaStore_Update d (store w) persisted) = None \<longrightarrow>
            fst (Handle d msg w) = None
          \<and> trace (processPackage (Process decode policy (Handle d)) now ctx inPkg w)
              = trace (snd (Handle d msg w)) @ Acked (pkg_UID inPkg)
                  # (case pkg_AckResult inPkg of None \<Rightarrow> []
                     | Some err \<Rightarrow> [Logged ErrorLevel (ErrorAckingPackage (pkg_UID inPkg) err)]))"
proof -
  let ?i = "Progress (clock d) (loaded\<lparr>inst_saga := saga_Init d (inst_saga loaded)\<rparr>)"
  let ?w0 = "emit (MutexLocked sagaId) w"
  let ?w1 = "emit (Logged WarnLevel (NoHandlerDefined (GroupKindOf (msg_Payload msg)) (msg_UID msg)))
               (emit (StoreGetById sagaId) ?w0)"
  have st: "inst_status ?i = StatusInProgress" by (simp add: Progress_def)
  have rh: "recordHistory d msg (NewSagaCtx ?i) = persisted"
    using assms(7) by (simp add: recordHistory_no_deliveries)
  have "sagaStore_GetById d (store ?w0) sagaId = Inr (Some loaded)" using assms(4) by simp
  from handleLocked_no_handler[OF this assms(5,6)]
  have hl: "handleLocked d msg sagaId ?w0 = persistAndNotify d msg (NewSagaCtx ?i) ?w1" .
  have pn: "persistAndNotify d msg (NewSagaCtx ?i) ?w1 =
     (map_option (\<lambda>err. Wrapf err ''error saving saga state to db'')
        (fst (sagaStore_Update d (store w) persisted)),
      emit (StoreUpdate persisted) (?w1\<lparr>store := snd (sagaStore_Update d (store w) persisted)\<rparr>))"
    using persistAndNotify_in_progress[OF st, of d msg ?w1] unfolding rh by simp
  have H: "Handle d msg w =
     (map_option (\<lambda>err. Wrapf err ''error saving saga state to db'')
        (fst (sagaStore_Update d (store w) persisted)),
      releaseMutex d sagaId
        (emit (StoreUpdate persisted) (?w1\<lparr>store := snd (sagaStore_Update d (store w) persisted)\<rparr>)))"
    unfolding Handle_locked[OF assms(2,3)] hl pn by simp
  have hist: "\<exists>ev. inst_historyEvents persisted = inst_historyEvents loaded @ [ev]
            \<and> ev_Payload ev = msg_Payload msg \<and> ev_OriginSource ev = msg_Origin msg
            \<and> ev_TraceUID ev = msg_UID msg \<and> ev_SagaStatus ev = String StatusInProgress"
    unfolding assms(7) by (simp add: AddHistoryEvent_def Progress_def)
  have tr: "trace (snd (Handle d msg w))
           = trace w @ [MutexLocked sagaId, StoreGetById sagaId,
                        Logged WarnLevel (NoHandlerDefined (GroupKindOf (msg_Payload msg)) (msg_UID msg)),
                        StoreUpdate persisted, MutexReleaseCalled sagaId]
               @ releaseLog d sagaId"
    unfolding H by simp
  have sto: "store (snd (Handle d msg w)) = snd (sagaStore_Update d (store w) persisted)"
    unfolding H by simp
  have res: "fst (Handle d msg w)
           = map_option (\<lambda>err. Wrapf err ''error saving saga state to db'')
               (fst (sagaStore_Update d (store w) persisted))"
    unfolding H by simp
  have ack: "trace (processPackage (Process decode policy (Handle d)) now ctx inPkg w)
              = trace (snd (Handle d msg w)) @ Acked (pkg_UID inPkg)
                  # (case pkg_AckResult inPkg of None \<Rightarrow> []
                     | Some err \<Rightarrow> [Logged ErrorLevel (ErrorAckingPackage (pkg_UID inPkg) err)])"
    if ok: "fst (sagaStore_Update d (store w) persisted) = None"
  proof -
    have "Process decode policy (Handle d) (WithTimeout now ctx packageProcessingMaxTime) inPkg w
            = (None, snd (Handle d msg w))"
      using assms(1) res ok by (cases "Handle d msg w") (simp add: Process_def)
    then show ?thesis by (rule processPackage_succeeded(1))
  qed
  show ?thesis
    using hist tr sto res ack by simp
qed

theorem missing_handler_is_not_an_error_witness:
  "fst (Handle demoDeps unhandledMsg (demoWorld StatusInProgress)) = None
   \<and> trace (processPackage (Process demoDecode Some (Handle demoDeps)) 0 \<lparr>ctx_deadline = None\<rparr>
              (demoPkg ''m2'') (demoWorld StatusInProgress))
       = trace (snd (Handle demoDeps unhandledMsg (demoWorld StatusInProgress))) @ [Acked ''m2'']"
  using missing_handler_is_not_an_error
          [of demoDecode "demoPkg ''m2''" unhandledMsg "demoWorld StatusInProgress" "''s1''" demoDeps
              "childInstance StatusInProgress" _ Some 0 "\<lparr>ctx_deadline = None\<rparr>", OF _ _ _ _ _ _ refl]
  by (simp add: demoWorld_def unhandledMsg_def demoDeps_def ExtractSagaUID_def
        sagaUIDKey_def childInstance_def demoDecode_def demoPkg_def fooEventGK_def)

lemma sendsOf_map_SendCall [simp]:
  "sendsOf (map (\<lambda>dl. SendCall (m dl) (h dl) (os dl)) dls)
     = map (\<lambda>dl. (out_Payload (m dl), out_Headers (m dl), h dl sagaUIDKey)) dls"
  by (induction dls) simp_all

lemma demo_turn:
  "Handle demoDeps fooMsg (demoWorld StatusInProgress) = (r, w') \<Longrightarrow>
   r = None
   \<and> sendsOf (trace w') = [(UserObject (''demo'', ''BarCommand'') ''{}'', 0, Some ''s1''),
                           (SagaChildCompletedEvent ''s1'', 0, Some ''s0'')]"
  by (auto simp: Handle_def handleLocked_def storeGetById_def releaseMutex_def demoWorld_def
        fooMsg_def demoDeps_def ExtractSagaUID_def sagaUIDKey_def childInstance_def
        fooEventGK_def completeAndDispatch_def NewSagaCtx_def Progress_def Let_def
        barCommand_def Send_def NewOutcomingMessage_def persistAndNotify_def storeUpdate_def
        recordHistory_def AddHistoryEvent_def demoMint_def AddSagaId_def)

text \<open>
  C5, as the claim states it, fails: when saga \<open>s1\<close> with parent \<open>s0\<close> completes, the
  event sent to the parent carries \<open>saga_uid = s0\<close> in its headers, but its payload
  field is the UID of the completed child, \<open>s1\<close>, not the parent's.
\<close>

theorem child_completed_payload_counterexample:
  "sendsOf (trace (snd (Handle demoDeps fooMsg (demoWorld StatusInProgress))))
     = [(UserObject (''demo'', ''BarCommand'') ''{}'', 0, Some ''s1''),
        (SagaChildCompletedEvent ''s1'', 0, Some ''s0'')]
   \<and> inst_parentID (childInstance StatusInProgress) = ''s0''
   \<and> SagaUID (SagaChildCompletedEvent ''s1'') \<noteq> inst_parentID (childInstance StatusInProgress)"
  using demo_turn[OF prod.collapse[symmetric]] by (simp add: childInstance_def)

lemma sendDeliveries_all_sent:
  assumes "sendDeliveries d msg inst dls w = (None, w2)"
  shows "store w2 = store w"
    and "heap w2 = (if dls = [] then heap w
                   else (heap w)(msg_Headers msg :=
                           (heap w (msg_Headers msg))(sagaUIDKey \<mapsto> inst_id inst)))"
    and "trace w2 = trace w
          @ map (\<lambda>dl. SendCall \<lparr>out_Payload = dl_Payload dl, out_Headers = msg_Headers msg\<rparr>
                         ((heap w (msg_Headers msg))(sagaUIDKey \<mapsto> inst_id inst))
                         (dl_Options dl)) dls"
  using sendDeliveries_effects[OF assms] by auto

text \<open>
  C5, amended.  In a turn whose handler and deliveries succeed, whose update is accepted
  by the store, and after which the instance is \<open>Completed\<close> with a non-empty parent
  UID, the handler sends, after \<^verbatim>\<open>Store.Update\<close>, exactly one
  \<^verbatim>\<open>SagaChildCompletedEvent\<close>: its headers carry \<open>saga_uid\<close> = the parent's UID and its
  payload field is the UID of the completed instance itself.  The turn returns what that
  \<^verbatim>\<open>Send\<close> returns.
\<close>

theorem completed_child_notifies_parent:
  assumes "ExtractSagaUID (heap w (msg_Headers msg)) = Inr sagaId"
    and "mutex_Lock d sagaId = None"
    and "sagaStore_GetById d (store w) sagaId = Inr (Some loaded)"
    and "\<not> Completed (inst_status loaded)"
    and "saga_EventHandlers d (saga_Init d (inst_saga loaded)) (GroupKindOf (msg_Payload msg))
           = Some handler"
    and "handler (NewSagaCtx (Progress (clock d) (loaded\<lparr>inst_saga := saga_Init d (inst_saga loaded)\<rparr>)))
           = (None, sagaCtx')"
    and "sendDeliveries d msg (sctx_SagaInstance sagaCtx') (sctx_Deliveries sagaCtx')
           (emit (HandlerCalled (GroupKindOf (msg_Payload msg)))
              (emit (StoreGetById sagaId) (emit (MutexLocked sagaId) w))) = (None, w2)"
    and "fst (sagaStore_Update d (store w) (recordHistory d msg sagaCtx')) = None"
    and "Completed (inst_status (sctx_SagaInstance sagaCtx'))"
    and "inst_parentID (sctx_SagaInstance sagaCtx') \<noteq> []"
  shows "trace w2 = trace w
           @ [MutexLocked sagaId, StoreGetById sagaId, HandlerCalled (GroupKindOf (msg_Payload msg))]
           @ map (\<lambda>dl. SendCall \<lparr>out_Payload = dl_Payload dl, out_Headers = msg_Headers msg\<rparr>
                          ((heap w (msg_Headers msg))(sagaUIDKey \<mapsto> inst_id (sctx_SagaInstance sagaCtx')))
                          (dl_Options dl))
                 (sctx_Deliveries sagaCtx')
       \<and> trace (snd (Handle d msg w)) = trace w2
           @ [StoreUpdate (recordHistory d msg sagaCtx'),
              SendCall \<lparr>out_Payload = SagaChildCompletedEvent (inst_id (sctx_SagaInstance sagaCtx')),
                        out_Headers = msg_Headers msg\<rparr>
                ((heap w2 (msg_Headers msg))(sagaUIDKey \<mapsto> inst_parentID (sctx_SagaInstance sagaCtx')))
                [],
              MutexReleaseCalled sagaId]
           @ releaseLog d sagaId
       \<and> sendsOf (drop (length (trace w2)) (trace (snd (Handle d msg w))))
           = [(SagaChildCompletedEvent (inst_id (sctx_SagaInstance sagaCtx')), msg_Headers msg,
               Some (inst_parentID (sctx_SagaInstance sagaCtx')))]
       \<and> fst (Handle d msg w)
           = execCtx_Send d
               \<lparr>out_Payload = SagaChildCompletedEvent (inst_id (sctx_SagaInstance sagaCtx')),
                out_Headers = msg_Headers msg\<rparr>
               ((heap w2 (msg_Headers msg))(sagaUIDKey \<mapsto> inst_parentID (sctx_SagaInstance sagaCtx')))
               []"
proof -
  let ?w0 = "emit (MutexLocked sagaId) w"
  let ?gk = "GroupKindOf (msg_Payload msg)"
  let ?w1 = "emit (HandlerCalled ?gk) (emit (StoreGetById sagaId) ?w0)"
  let ?child = "\<lparr>out_Payload = SagaChildCompletedEvent (inst_id (sctx_SagaInstance sagaCtx')),
                 out_Headers = msg_Headers msg\<rparr>"
  let ?hdr = "(heap w2 (msg_Headers msg))(sagaUIDKey \<mapsto> inst_parentID (sctx_SagaInstance sagaCtx'))"
  note sd = sendDeliveries_all_sent[OF assms(7)]
  have t2: "trace w2 = trace w
           @ [MutexLocked sagaId, StoreGetById sagaId, HandlerCalled ?gk]
           @ map (\<lambda>dl. SendCall \<lparr>out_Payload = dl_Payload dl, out_Headers = msg_Headers msg\<rparr>
                          ((heap w (msg_Headers msg))(sagaUIDKey \<mapsto> inst_id (sctx_SagaInstance sagaCtx')))
                          (dl_Options dl))
                 (sctx_Deliveries sagaCtx')"
    using sd(3) by simp
  have g: "sagaStore_GetById d (store ?w0) sagaId = Inr (Some loaded)" using assms(3) by simp
  have hl: "handleLocked d msg sagaId ?w0 = persistAndNotify d msg sagaCtx' w2"
    using handleLocked_handler_ok[OF g assms(4,5,6)] assms(7) by simp
  have u: "fst (sagaStore_Update d (store w2) (recordHistory d msg sagaCtx')) = None"
    using assms(8) sd(1) by simp
  note pn = persistAndNotify_parent[OF u assms(9,10)]
  have H: "Handle d msg w = (fst (persistAndNotify d msg sagaCtx' w2),
                             releaseMutex d sagaId (snd (persistAndNotify d msg sagaCtx' w2)))"
    unfolding Handle_locked[OF assms(1,2)] hl ..
  have tr: "trace (snd (Handle d msg w)) = trace w2
           @ [StoreUpdate (recordHistory d msg sagaCtx'), SendCall ?child ?hdr [],
              MutexReleaseCalled sagaId]
           @ releaseLog d sagaId"
    unfolding H pn by simp
  have res: "fst (Handle d msg w) = execCtx_Send d ?child ?hdr []"
    unfolding H pn by simp
  have sends: "sendsOf (drop (length (trace w2)) (trace (snd (Handle d msg w))))
           = [(SagaChildCompletedEvent (inst_id (sctx_SagaInstance sagaCtx')), msg_Headers msg,
               Some (inst_parentID (sctx_SagaInstance sagaCtx')))]"
    unfolding tr by simp
  show ?thesis using t2 tr sends res by blast
qed

lemma demo_turn_reaches_handler:
  shows "ExtractSagaUID (heap (demoWorld StatusInProgress) (msg_Headers fooMsg)) = Inr ''s1''"
    and "mutex_Lock demoDeps ''s1'' = None"
    and "sagaStore_GetById demoDeps (store (demoWorld StatusInProgress)) ''s1''
           = Inr (Some (childInstance StatusInProgress))"
    and "\<not> Completed (inst_status (childInstance StatusInProgress))"
    and "saga_EventHandlers demoDeps (saga_Init demoDeps (inst_saga (childInstance StatusInProgress)))
           (GroupKindOf (msg_Payload fooMsg)) = Some completeAndDispatch"
    and "completeAndDispatch (NewSagaCtx (Progress (clock demoDeps)
           ((childInstance StatusInProgress)
              \<lparr>inst_saga := saga_Init demoDeps (inst_saga (childInstance StatusInProgress))\<rparr>)))
         = (None, \<lparr>sctx_SagaInstance = (Progress 7 (childInstance StatusInProgress))
                                        \<lparr>inst_status := StatusCompleted\<rparr>,
                   sctx_Deliveries = [barCommand]\<rparr>)"
  by (simp_all add: demoWorld_def fooMsg_def ExtractSagaUID_def demoDeps_def childInstance_def
        completeAndDispatch_def NewSagaCtx_def Progress_def)

theorem completed_child_notifies_parent_witness:
  "sendsOf (drop 4 (trace (snd (Handle demoDeps fooMsg (demoWorld StatusInProgress)))))
     = [(SagaChildCompletedEvent ''s1'', 0, Some ''s0'')]"
proof -
  let ?i = "Progress 7 (childInstance StatusInProgress)"
  let ?ctx' = "\<lparr>sctx_SagaInstance = ?i\<lparr>inst_status := StatusCompleted\<rparr>, sctx_Deliveries = [barCommand]\<rparr>"
  let ?w = "demoWorld StatusInProgress"
  let ?w1 = "emit (HandlerCalled fooEventGK) (emit (StoreGetById ''s1'') (emit (MutexLocked ''s1'') ?w))"
  let ?w2 = "emit (SendCall \<lparr>out_Payload = dl_Payload barCommand, out_Headers = 0\<rparr>
                     [sagaUIDKey \<mapsto> ''s1''] []) (AddSagaId 0 ''s1'' ?w1)"
  have a7: "sendDeliveries demoDeps fooMsg (sctx_SagaInstance ?ctx') (sctx_Deliveries ?ctx')
              (emit (HandlerCalled (GroupKindOf (msg_Payload fooMsg)))
                 (emit (StoreGetById ''s1'') (emit (MutexLocked ''s1'') ?w))) = (None, ?w2)"
    by (simp add: Send_def NewOutcomingMessage_def demoDeps_def fooMsg_def Progress_def
          childInstance_def demoWorld_def AddSagaId_def emit_def Let_def barCommand_def)
  have a8: "fst (sagaStore_Update demoDeps (store ?w) (recordHistory demoDeps fooMsg ?ctx')) = None"
    by (simp add: demoDeps_def)
  have a9: "Completed (inst_status (sctx_SagaInstance ?ctx'))" by simp
  have a10: "inst_parentID (sctx_SagaInstance ?ctx') \<noteq> []"
    by (simp add: Progress_def childInstance_def)
  have l: "length (trace ?w2) = 4" by (simp add: demoWorld_def)
  show ?thesis
    using completed_child_notifies_parent[OF demo_turn_reaches_handler a7 a8 a9 a10] l
    by (simp add: Progress_def childInstance_def fooMsg_def)
qed

section \<open>Properties of the saga store\<close>

lemma scanIds_Inr:
  "scanIds scan n rows acc = Inr ids \<Longrightarrow> distinct acc \<Longrightarrow>
   set ids = set rows \<union> set acc \<and> distinct ids"
  by (induction rows arbitrary: n acc) (auto split: option.splits)

lemma rollback_result:
  "rollback drv err db = (r, db', e) \<Longrightarrow> r \<noteq> None \<and> db' = db \<and> e \<noteq> Committed"
  by (auto simp: rollback_def split: option.splits)

lemma execInsertHistory_Inr:
  "execInsertHistory drv row tx = Inr tx' \<Longrightarrow>
   saga_tbl tx' = saga_tbl tx \<and> history_tbl tx' = history_tbl tx @ [row]"
  by (auto simp: execInsertHistory_def split: option.splits if_splits)

lemma insertNewEvents_Inr:
  "insertNewEvents drv sagaId ids ms tx = Inr tx' \<Longrightarrow>
   saga_tbl tx' = saga_tbl tx
   \<and> history_tbl tx' = history_tbl tx
        @ map (\<lambda>m. historyRow sagaId m
                     (case marshalPayload drv (ev_Payload m) of Inr payload \<Rightarrow> payload | Inl _ \<Rightarrow> []))
            (filter (\<lambda>m. ev_ID m \<notin> set ids) ms)"
proof (induction ms arbitrary: tx)
  case Nil
  then show ?case by simp
next
  case (Cons m ms)
  show ?case
  proof (cases "ev_ID m \<in> set ids")
    case True
    with Cons.prems have "insertNewEvents drv sagaId ids ms tx = Inr tx'" by simp
    from Cons.IH[OF this] True show ?thesis by simp
  next
    case False
    with Cons.prems obtain payload tx1 where
      p: "marshalPayload drv (ev_Payload m) = Inr payload"
      and i: "execInsertHistory drv (historyRow sagaId m payload) tx = Inr tx1"
      and r: "insertNewEvents drv sagaId ids ms tx1 = Inr tx'"
      by (auto split: sum.splits)
    from execInsertHistory_Inr[OF i] Cons.IH[OF r] False p show ?thesis by simp
  qed
qed

lemma execUpdateSaga_simps [simp]:
  "history_tbl (execUpdateSaga new db) = history_tbl db"
  "saga_tbl (execUpdateSaga new db) = map (\<lambda>row. if s_id row = s_id new then new else row) (saga_tbl db)"
  "selectHistoryIds sagaId (execUpdateSaga new db) = selectHistoryIds sagaId db"
  by (simp_all add: execUpdateSaga_def selectHistoryIds_def)

lemma mysqlStore_Update_cases:
  assumes "mysqlStore_Update drv db sagaInstance = (r, db', e)"
  shows "(r \<noteq> None \<and> db' = db \<and> e \<noteq> Committed)
       \<or> (r = None \<and> e = Committed
            \<and> (\<exists>payload ids. marshalSaga drv (inst_saga sagaInstance) = Inr payload
                  \<and> scanIds (scanErr drv) 0 (selectHistoryIds (inst_id sagaInstance) db) [] = Inr ids
                  \<and> (if length ids < length (inst_historyEvents sagaInstance)
                      then insertNewEvents drv (inst_id sagaInstance) ids (inst_historyEvents sagaInstance)
                             (execUpdateSaga (sagaRow drv sagaInstance payload) db)
                      else Inr (execUpdateSaga (sagaRow drv sagaInstance payload) db)) = Inr db'))"
  using assms unfolding mysqlStore_Update_def
  by (auto split: sum.splits option.splits dest!: rollback_result)


text \<open>
  C1, as the claim states it, fails: with the events \<open>a\<close> and \<open>b\<close> persisted for saga
  \<open>s1\<close> and an instance that holds the events \<open>a\<close> and \<open>c\<close> in memory,
  \<^verbatim>\<open>Update\<close> commits without inserting \<open>c\<close>, whose ID is not persisted: the source
  inserts only when fewer IDs are persisted than the instance holds events.
\<close>

theorem Update_skips_unpersisted_event_counterexample:
  "fst (mysqlStore_Update okDriver demoDb (storedInstance [''a'', ''c''])) = None
   \<and> map ev_ID (inst_historyEvents (storedInstance [''a'', ''c''])) = [''a'', ''c'']
   \<and> selectHistoryIds ''s1'' demoDb = [''a'', ''b'']
   \<and> map h_id (history_tbl (fst (snd (mysqlStore_Update okDriver demoDb (storedInstance [''a'', ''c''])))))
       = [''a'', ''b'']"
  by (simp add: mysqlStore_Update_def okDriver_def demoDb_def storedInstance_def memoryEvent_def
        storedEvent_def selectHistoryIds_def execUpdateSaga_def sagaRow_def)

text \<open>
  C1, amended.  On any error \<^verbatim>\<open>Update\<close> leaves the stored tables as they were and
  nothing is committed.  When it succeeds the transaction is committed, the saga row of
  the instance is overwritten, and the history table is the old one followed by the new
  rows: when fewer history IDs are persisted for the saga than the instance holds events,
  these are exactly the in-memory events whose IDs are not persisted, in order, and
  otherwise none.  In every case the old history rows remain, unchanged, in front.
\<close>

theorem Update_appends_new_history_in_one_transaction:
  assumes "mysqlStore_Update drv db sagaInstance = (r, db', e)"
  shows "(r \<noteq> None \<longrightarrow> db' = db \<and> e \<noteq> Committed)
       \<and> (r = None \<longrightarrow>
            e = Committed
          \<and> (\<exists>payload. marshalSaga drv (inst_saga sagaInstance) = Inr payload
                \<and> saga_tbl db' = map (\<lambda>row. if s_id row = inst_id sagaInstance
                                             then sagaRow drv sagaInstance payload else row)
                                    (saga_tbl db))
          \<and> history_tbl db' = history_tbl db
              @ (if card (set (selectHistoryIds (inst_id sagaInstance) db))
                      < length (inst_historyEvents sagaInstance)
                 then map (\<lambda>m. historyRow (inst_id sagaInstance) m
                                 (case marshalPayload drv (ev_Payload m) of
                                    Inr payload \<Rightarrow> payload | Inl _ \<Rightarrow> []))
                        (filter (\<lambda>m. ev_ID m \<notin> set (selectHistoryIds (inst_id sagaInstance) db))
                           (inst_historyEvents sagaInstance))
                 else []))
       \<and> prefix (history_tbl db) (history_tbl db')"
proof -
  from mysqlStore_Update_cases[OF assms] show ?thesis
  proof
    assume "r \<noteq> None \<and> db' = db \<and> e \<noteq> Committed"
    then show ?thesis by simp
  next
    assume ok: "r = None \<and> e = Committed
            \<and> (\<exists>payload ids. marshalSaga drv (inst_saga sagaInstance) = Inr payload
                  \<and> scanIds (scanErr drv) 0 (selectHistoryIds (inst_id sagaInstance) db) [] = Inr ids
                  \<and> (if length ids < length (inst_historyEvents sagaInstance)
                      then insertNewEvents drv (inst_id sagaInstance) ids (inst_historyEvents sagaInstance)
                             (execUpdateSaga (sagaRow drv sagaInstance payload) db)
                      else Inr (execUpdateSaga (sagaRow drv sagaInstance payload) db)) = Inr db')"
    then obtain payload ids where p: "marshalSaga drv (inst_saga sagaInstance) = Inr payload"
      and sc: "scanIds (scanErr drv) 0 (selectHistoryIds (inst_id sagaInstance) db) [] = Inr ids"
      and ins: "(if length ids < length (inst_historyEvents sagaInstance)
                      then insertNewEvents drv (inst_id sagaInstance) ids (inst_historyEvents sagaInstance)
                             (execUpdateSaga (sagaRow drv sagaInstance payload) db)
                      else Inr (execUpdateSaga (sagaRow drv sagaInstance payload) db)) = Inr db'"
      by blast
    from scanIds_Inr[OF sc] have ids: "set ids = set (selectHistoryIds (inst_id sagaInstance) db)"
      "distinct ids" by simp_all
    then have len: "length ids = card (set (selectHistoryIds (inst_id sagaInstance) db))"
      by (metis distinct_card)
    have sid: "s_id (sagaRow drv sagaInstance payload) = inst_id sagaInstance"
      by (simp add: sagaRow_def)
    let ?new = "map (\<lambda>m. historyRow (inst_id sagaInstance) m
                                 (case marshalPayload drv (ev_Payload m) of
                                    Inr payload \<Rightarrow> payload | Inl _ \<Rightarrow> []))
                        (filter (\<lambda>m. ev_ID m \<notin> set (selectHistoryIds (inst_id sagaInstance) db))
                           (inst_historyEvents sagaInstance))"
    have tbls: "saga_tbl db' = map (\<lambda>row. if s_id row = inst_id sagaInstance
                                             then sagaRow drv sagaInstance payload else row)
                                    (saga_tbl db)
        \<and> history_tbl db' = history_tbl db
              @ (if card (set (selectHistoryIds (inst_id sagaInstance) db))
                      < length (inst_historyEvents sagaInstance) then ?new else [])"
    proof (cases "length ids < length (inst_historyEvents sagaInstance)")
      case True
      with ins have "insertNewEvents drv (inst_id sagaInstance) ids (inst_historyEvents sagaInstance)
                             (execUpdateSaga (sagaRow drv sagaInstance payload) db) = Inr db'" by simp
      from insertNewEvents_Inr[OF this] True show ?thesis
        unfolding ids(1) len by (simp add: sid)
    next
      case False
      with ins have "db' = execUpdateSaga (sagaRow drv sagaInstance payload) db" by simp
      with False show ?thesis unfolding len by (simp add: sid)
    qed
    then have "prefix (history_tbl db) (history_tbl db')" by simp
    with ok p tbls show ?thesis by blast
  qed
qed

theorem Update_appends_new_history_in_one_transaction_witness:
  "map h_id (history_tbl (fst (snd (mysqlStore_Update okDriver demoDb (storedInstance [''a'', ''b'', ''c''])))))
     = [''a'', ''b'', ''c'']
   \<and> mysqlStore_Update okDriver demoDb (storedInstance [''a'', ''c'', ''c''])
       = (Some (WithStack (External ''Duplicate entry for key PRIMARY'')), demoDb, RolledBack)"
proof -
  have ok: "fst (mysqlStore_Update okDriver demoDb (storedInstance [''a'', ''b'', ''c''])) = None"
    by (simp add: mysqlStore_Update_def okDriver_def demoDb_def storedInstance_def memoryEvent_def
        storedEvent_def selectHistoryIds_def execUpdateSaga_def sagaRow_def execInsertHistory_def
        historyRow_def)
  have ids: "selectHistoryIds ''s1'' demoDb = [''a'', ''b'']"
    by (simp add: selectHistoryIds_def demoDb_def storedEvent_def)
  have bad: "fst (mysqlStore_Update okDriver demoDb (storedInstance [''a'', ''c'', ''c'']))
               = Some (WithStack (External ''Duplicate entry for key PRIMARY''))"
     "snd (snd (mysqlStore_Update okDriver demoDb (storedInstance [''a'', ''c'', ''c'']))) = RolledBack"
    by (simp_all add: mysqlStore_Update_def okDriver_def demoDb_def storedInstance_def memoryEvent_def
        storedEvent_def selectHistoryIds_def execUpdateSaga_def sagaRow_def execInsertHistory_def
        historyRow_def rollback_def)
  obtain r db' e where u:
    "mysqlStore_Update okDriver demoDb (storedInstance [''a'', ''b'', ''c'']) = (r, db', e)"
    using prod_cases3 by blast
  have r: "r = None" using ok u by simp
  have n: "card (set (selectHistoryIds (inst_id (storedInstance [''a'', ''b'', ''c''])) demoDb)) = 2"
    "length (inst_historyEvents (storedInstance [''a'', ''b'', ''c''])) = 3"
    by (simp_all add: storedInstance_def ids)
  have iid: "inst_id (storedInstance [''a'', ''b'', ''c'']) = ''s1''"
    by (simp add: storedInstance_def)
  from Update_appends_new_history_in_one_transaction[OF u] r
  have "history_tbl db' = history_tbl demoDb
      @ (if card (set (selectHistoryIds (inst_id (storedInstance [''a'', ''b'', ''c''])) demoDb))
              < length (inst_historyEvents (storedInstance [''a'', ''b'', ''c'']))
         then map (\<lambda>m. historyRow (inst_id (storedInstance [''a'', ''b'', ''c''])) m
                         (case marshalPayload okDriver (ev_Payload m) of
                            Inr payload \<Rightarrow> payload | Inl _ \<Rightarrow> []))
                (filter (\<lambda>m. ev_ID m \<notin> set (selectHistoryIds (inst_id (storedInstance [''a'', ''b'', ''c''])) demoDb))
                   (inst_historyEvents (storedInstance [''a'', ''b'', ''c''])))
         else [])"
    by blast
  then have "map h_id (history_tbl db') = [''a'', ''b'', ''c'']"
    unfolding n iid ids by (simp add: storedInstance_def memoryEvent_def historyRow_def demoDb_def
        storedEvent_def okDriver_def)
  then have c1: "map h_id (history_tbl (fst (snd (mysqlStore_Update okDriver demoDb
                    (storedInstance [''a'', ''b'', ''c''])))))
     = [''a'', ''b'', ''c'']"
    using u by simp
  obtain r2 db2 e2 where u2:
    "mysqlStore_Update okDriver demoDb (storedInstance [''a'', ''c'', ''c'']) = (r2, db2, e2)"
    using prod_cases3 by blast
  from bad u2 have r2: "r2 = Some (WithStack (External ''Duplicate entry for key PRIMARY''))"
    and e2: "e2 = RolledBack" by simp_all
  from Update_appends_new_history_in_one_transaction[OF u2] r2 have "db2 = demoDb" by simp
  with u2 r2 e2 have c2: "mysqlStore_Update okDriver demoDb (storedInstance [''a'', ''c'', ''c''])
       = (Some (WithStack (External ''Duplicate entry for key PRIMARY'')), demoDb, RolledBack)"
    by simp
  from c1 c2 show ?thesis by (rule conjI)
qed

lemma foldl_applyFilter_empty:
  "\<forall>f\<in>set filters. filterValue f = [] \<Longrightarrow>
   fo_sagaId opts = [] \<Longrightarrow> fo_status opts = [] \<Longrightarrow> fo_sagaType opts = [] \<Longrightarrow>
   foldl (\<lambda>opts f. applyFilter f opts) opts filters = opts"
proof (induction filters)
  case Nil
  then show ?case by simp
next
  case (Cons f fs)
  from Cons.prems have "applyFilter f opts = opts" by (cases f) simp_all
  with Cons show ?case by simp
qed

text \<open>
  C10.  \<^verbatim>\<open>GetByFilter\<close> called with at least one filter, all of them with an empty
  value, returns the error "All specified filters are empty ..." and sends no query to
  the database.
\<close>

theorem GetByFilter_rejects_all_empty_filters:
  assumes "filters \<noteq> []" and "\<forall>f\<in>set filters. filterValue f = []"
  shows "GetByFilter drv db filters = (Inl AllFiltersEmpty, [])"
  using assms(1) foldl_applyFilter_empty[OF assms(2), of "\<lparr>fo_sagaId = [], fo_status = [], fo_sagaType = []\<rparr>"]
  by (simp add: GetByFilter_def buildConditions_def)

theorem GetByFilter_rejects_all_empty_filters_witness:
  "GetByFilter okDriver demoDb [WithSagaId [], WithStatus []] = (Inl AllFiltersEmpty, [])"
  using GetByFilter_rejects_all_empty_filters[of "[WithSagaId [], WithStatus []]" okDriver demoDb]
  by simp

end
